theory Spec2Isabelle
  imports Main "HOL-Library.Sublist"
begin

section \<open>Errors and externally owned records\<close>

text \<open>
  Go errors are values; every \<^verbatim>\<open>fmt.Errorf\<close> of the modelled functions is one
  constructor, and \<^verbatim>\<open>%w\<close> wrapping keeps the wrapped error as an argument.
  \<open>ExecError\<close> stands for a failure reported by an external collaborator (the \<^verbatim>\<open>bd\<close>
  subprocess, the workspace lookup, \<^verbatim>\<open>enqueueBead\<close>).
\<close>

datatype error =
    ExecError string
  | CannotResolveBead string error
  | BatchCannotResolveBead string error
  | MixedIDTypes string string
  | CannotResolveRig string
  | AllEnqueueAttemptsFailed nat
  | AllEnqueueAttemptsFailedConvoy nat string
  | AllEnqueueAttemptsFailedEpic nat string
  | ConvoyNotFound string
  | EpicNotFound string
  | GettingTrackedIssues error
  | ListingChildren string error
  | BdDepList string error string
  | ParsingDependencyList error
  | ParsingQueuedBeads error
  | AllBeadDirectoriesFailed nat error
  | AllDirectoriesFailed error
  | LoadingQueueState error
  | SavingQueueState error
  | Panic string
  | NotFound string
  | GuardRejected string
  | FormulaInvalid string
  | StoreUnavailable string

text \<open>The record returned by \<^verbatim>\<open>getBeadInfo\<close>; the fields are the ones the callers read.\<close>

record beadInfo =
  info_Title :: string
  info_Status :: string
  info_Assignee :: string
  info_IssueType :: string
  info_Labels :: "string list"

section \<open>Target-type router: \<^verbatim>\<open>detectQueueIDType\<close>\<close>

text \<open>
  The \<^verbatim>\<open>for\<close> loop over \<^verbatim>\<open>info.Labels\<close>: the first label that is a type marker
  decides, \<open>None\<close> when the loop falls through.
\<close>

fun labelType :: "string list \<Rightarrow> string option" where
  "labelType [] = None"
| "labelType (label # rest) =
     (if label = ''gt:epic'' then Some ''epic''
      else if label = ''gt:convoy'' then Some ''convoy''
      else labelType rest)"

text \<open>
  \<^verbatim>\<open>getBeadInfo\<close> is the store lookup (a \<^verbatim>\<open>bd show\<close> subprocess); it is a parameter
  reading the store state \<open>w\<close>.
\<close>

definition detectQueueIDType ::
  "('w \<Rightarrow> string \<Rightarrow> error + beadInfo) \<Rightarrow> 'w \<Rightarrow> string \<Rightarrow> error + string" where
  "detectQueueIDType getBeadInfo w ident =
     (if prefix ''hq-cv-'' ident then Inr ''convoy''
      else case getBeadInfo w ident of
        Inl err \<Rightarrow> Inl (CannotResolveBead ident err)
      | Inr info \<Rightarrow>
          if info_IssueType info = ''epic'' then Inr ''epic''
          else if info_IssueType info = ''convoy'' then Inr ''convoy''
          else (case labelType (info_Labels info) of
                  Some t \<Rightarrow> Inr t
                | None \<Rightarrow> Inr ''task''))"

lemma labelType_find:
  "labelType ls =
     (case find (\<lambda>l. l = ''gt:epic'' \<or> l = ''gt:convoy'') ls of
        None \<Rightarrow> None
      | Some l \<Rightarrow> Some (if l = ''gt:epic'' then ''epic'' else ''convoy''))"
  by (induction ls) auto

text \<open>
  Claim C3. An identifier with the reserved prefix \<^verbatim>\<open>hq-cv-\<close> is a convoy whatever the
  lookup would return (the lookup is not consulted); otherwise, for a successful lookup,
  the issue type \<^verbatim>\<open>epic\<close> or \<^verbatim>\<open>convoy\<close> decides; otherwise the first label among
  \<^verbatim>\<open>gt:epic\<close> and \<^verbatim>\<open>gt:convoy\<close> decides; and with no type signal the identifier
  is a task.
\<close>

theorem detectQueueIDType_classification:
  "(prefix ''hq-cv-'' ident \<longrightarrow> detectQueueIDType getBeadInfo w ident = Inr ''convoy'')
   \<and> (\<not> prefix ''hq-cv-'' ident \<and> getBeadInfo w ident = Inr info \<longrightarrow>
        (info_IssueType info = ''epic'' \<longrightarrow>
           detectQueueIDType getBeadInfo w ident = Inr ''epic'')
      \<and> (info_IssueType info = ''convoy'' \<longrightarrow>
           detectQueueIDType getBeadInfo w ident = Inr ''convoy'')
      \<and> (info_IssueType info \<noteq> ''epic'' \<and> info_IssueType info \<noteq> ''convoy'' \<longrightarrow>
           detectQueueIDType getBeadInfo w ident =
             (case find (\<lambda>l. l = ''gt:epic'' \<or> l = ''gt:convoy'') (info_Labels info) of
                None \<Rightarrow> Inr ''task''
              | Some l \<Rightarrow> Inr (if l = ''gt:epic'' then ''epic'' else ''convoy''))))"
  by (auto simp: detectQueueIDType_def labelType_find split: option.splits)

text \<open>
  A small store for concrete runs: a bead is looked up by identifier; an identifier that
  is not in the store makes the lookup fail.
\<close>

definition demoBeads :: "(string \<times> beadInfo) list" where
  "demoBeads =
     [(''gt-e1'', \<lparr>info_Title = ''Epic'', info_Status = ''open'', info_Assignee = [],
                  info_IssueType = ''epic'', info_Labels = []\<rparr>),
      (''gt-c1'', \<lparr>info_Title = ''Convoy'', info_Status = ''open'', info_Assignee = [],
                  info_IssueType = ''convoy'', info_Labels = [''gt:epic'']\<rparr>),
      (''gt-l1'', \<lparr>info_Title = ''Labelled'', info_Status = ''open'', info_Assignee = [],
                  info_IssueType = ''task'',
                  info_Labels = [''x'', ''gt:convoy'', ''gt:epic'']\<rparr>),
      (''gt-t1'', \<lparr>info_Title = ''Task one'', info_Status = ''open'', info_Assignee = [],
                  info_IssueType = [], info_Labels = [''gt:queued'']\<rparr>),
      (''gt-t2'', \<lparr>info_Title = ''Task two'', info_Status = ''open'', info_Assignee = [],
                  info_IssueType = ''task'', info_Labels = []\<rparr>),
      (''gt-h1'', \<lparr>info_Title = ''Hooked'', info_Status = ''hooked'', info_Assignee = [],
                  info_IssueType = ''task'', info_Labels = []\<rparr>)]"

definition demoGetBeadInfo ::
  "(string \<times> beadInfo) list \<Rightarrow> string \<Rightarrow> error + beadInfo" where
  "demoGetBeadInfo w ident =
     (case map_of w ident of
        None \<Rightarrow> Inl (ExecError ''bd show: not found'')
      | Some info \<Rightarrow> Inr info)"

theorem detectQueueIDType_classification_witness:
  "detectQueueIDType demoGetBeadInfo [] ''hq-cv-abc'' = Inr ''convoy''
   \<and> detectQueueIDType demoGetBeadInfo demoBeads ''gt-e1'' = Inr ''epic''
   \<and> detectQueueIDType demoGetBeadInfo demoBeads ''gt-c1'' = Inr ''convoy''
   \<and> detectQueueIDType demoGetBeadInfo demoBeads ''gt-l1'' = Inr ''convoy''
   \<and> detectQueueIDType demoGetBeadInfo demoBeads ''gt-t1'' = Inr ''task''"
  using detectQueueIDType_classification [of "''hq-cv-abc''" demoGetBeadInfo "[]"]
    detectQueueIDType_classification [of "''gt-e1''" demoGetBeadInfo demoBeads
      "\<lparr>info_Title = ''Epic'', info_Status = ''open'', info_Assignee = [],
        info_IssueType = ''epic'', info_Labels = []\<rparr>"]
    detectQueueIDType_classification [of "''gt-c1''" demoGetBeadInfo demoBeads
      "\<lparr>info_Title = ''Convoy'', info_Status = ''open'', info_Assignee = [],
        info_IssueType = ''convoy'', info_Labels = [''gt:epic'']\<rparr>"]
    detectQueueIDType_classification [of "''gt-l1''" demoGetBeadInfo demoBeads
      "\<lparr>info_Title = ''Labelled'', info_Status = ''open'', info_Assignee = [],
        info_IssueType = ''task'', info_Labels = [''x'', ''gt:convoy'', ''gt:epic'']\<rparr>"]
    detectQueueIDType_classification [of "''gt-t1''" demoGetBeadInfo demoBeads
      "\<lparr>info_Title = ''Task one'', info_Status = ''open'', info_Assignee = [],
        info_IssueType = [], info_Labels = [''gt:queued'']\<rparr>"]
  by (simp add: demoGetBeadInfo_def demoBeads_def)

section \<open>Queue state: \<^verbatim>\<open>runQueuePause\<close> and \<^verbatim>\<open>runQueueResume\<close>\<close>

text \<open>
  The persisted global state (\<^verbatim>\<open>.runtime/queue-state.json\<close>): the fields the commands
  read, with the JSON layout of the design document.
\<close>

record QueueState =
  Paused :: bool
  PausedBy :: string
  PausedAt :: string
  LastDispatchAt :: string
  LastDispatchCount :: int

text \<open>
  The collaborators of the two commands, none of them under \<^verbatim>\<open>internal/cmd/queue.go\<close>:
  the workspace lookup, loading and saving the state file (saving is the only operation
  that changes the world \<open>'w\<close>), the two in-memory transitions and the actor detection.
\<close>

record 'w workspaceEnv =
  FindFromCwdOrError :: "'w \<Rightarrow> error + string"

record 'w stateEnv = "'w workspaceEnv" +
  LoadQueueState :: "'w \<Rightarrow> string \<Rightarrow> error + QueueState"
  SaveQueueState :: "string \<Rightarrow> QueueState \<Rightarrow> 'w \<Rightarrow> error option \<times> 'w"
  SetPaused :: "string \<Rightarrow> QueueState \<Rightarrow> QueueState"
  SetResumed :: "QueueState \<Rightarrow> QueueState"
  detectActor :: "'w \<Rightarrow> string"

definition runQueuePause :: "'w stateEnv \<Rightarrow> 'w \<Rightarrow> error option \<times> 'w" where
  "runQueuePause env w =
     (case FindFromCwdOrError env w of
        Inl err \<Rightarrow> (Some err, w)
      | Inr townRoot \<Rightarrow>
          (case LoadQueueState env w townRoot of
             Inl err \<Rightarrow> (Some (LoadingQueueState err), w)
           | Inr state \<Rightarrow>
               if Paused state then (None, w)
               else
                 (let actor = detectActor env w;
                      state' = SetPaused env actor state
                  in case SaveQueueState env townRoot state' w of
                       (Some err, w') \<Rightarrow> (Some (SavingQueueState err), w')
                     | (None, w') \<Rightarrow> (None, w'))))"

definition runQueueResume :: "'w stateEnv \<Rightarrow> 'w \<Rightarrow> error option \<times> 'w" where
  "runQueueResume env w =
     (case FindFromCwdOrError env w of
        Inl err \<Rightarrow> (Some err, w)
      | Inr townRoot \<Rightarrow>
          (case LoadQueueState env w townRoot of
             Inl err \<Rightarrow> (Some (LoadingQueueState err), w)
           | Inr state \<Rightarrow>
               if \<not> Paused state then (None, w)
               else
                 (let state' = SetResumed env state
                  in case SaveQueueState env townRoot state' w of
                       (Some err, w') \<Rightarrow> (Some (SavingQueueState err), w')
                     | (None, w') \<Rightarrow> (None, w'))))"

text \<open>
  Claim C9. When the loaded state is already paused, pause returns success and the world
  it leaves is the world it was given, whatever saving would have done; likewise resume
  on a state that is not paused. Loading afterwards therefore gives the same record.
\<close>

theorem redundant_pause_resume_write_free:
  assumes "FindFromCwdOrError env w = Inr townRoot"
    and "LoadQueueState env w townRoot = Inr state"
  shows "(Paused state \<longrightarrow>
            runQueuePause (env\<lparr>SaveQueueState := anySave\<rparr>) w = (None, w)
          \<and> LoadQueueState env (snd (runQueuePause env w)) townRoot = Inr state)
       \<and> (\<not> Paused state \<longrightarrow>
            runQueueResume (env\<lparr>SaveQueueState := anySave\<rparr>) w = (None, w)
          \<and> LoadQueueState env (snd (runQueueResume env w)) townRoot = Inr state)"
  using assms by (simp add: runQueuePause_def runQueueResume_def)

text \<open>
  A concrete world for the state commands: the state file is an optional record; loading
  a missing file gives the default (not paused), saving replaces the file.
\<close>

definition demoStateEnv :: "(QueueState option) stateEnv" where
  "demoStateEnv =
     \<lparr>FindFromCwdOrError = (\<lambda>w. Inr ''/town''),
      LoadQueueState = (\<lambda>w root. case w of
          None \<Rightarrow> Inr \<lparr>Paused = False, PausedBy = [], PausedAt = [],
                        LastDispatchAt = [], LastDispatchCount = 0\<rparr>
        | Some s \<Rightarrow> Inr s),
      SaveQueueState = (\<lambda>root s w. (None, Some s)),
      SetPaused = (\<lambda>actor s. s\<lparr>Paused := True, PausedBy := actor, PausedAt := ''now''\<rparr>),
      SetResumed = (\<lambda>s. s\<lparr>Paused := False, PausedBy := [], PausedAt := []\<rparr>),
      detectActor = (\<lambda>w. ''mayor/'')\<rparr>"

definition demoPausedState :: QueueState where
  "demoPausedState =
     \<lparr>Paused = True, PausedBy = ''crew/a'', PausedAt = ''2026-02-19T10:00:00Z'',
      LastDispatchAt = ''2026-02-19T09:57:00Z'', LastDispatchCount = 3\<rparr>"

theorem redundant_pause_resume_write_free_witness:
  "runQueuePause demoStateEnv (Some demoPausedState) = (None, Some demoPausedState)
   \<and> runQueueResume demoStateEnv (Some (demoPausedState\<lparr>Paused := False\<rparr>))
       = (None, Some (demoPausedState\<lparr>Paused := False\<rparr>))"
  using redundant_pause_resume_write_free [of demoStateEnv "Some demoPausedState" "''/town''"
      demoPausedState "SaveQueueState demoStateEnv"]
    redundant_pause_resume_write_free [of demoStateEnv
      "Some (demoPausedState\<lparr>Paused := False\<rparr>)" "''/town''"
      "demoPausedState\<lparr>Paused := False\<rparr>" "SaveQueueState demoStateEnv"]
  by (simp add: demoStateEnv_def demoPausedState_def)

section \<open>Ready-set resolver: \<^verbatim>\<open>listQueuedBeads\<close>\<close>

text \<open>
  Modelled from the spec: the type \<^verbatim>\<open>QueueMetadata\<close> is declared outside
  \<^verbatim>\<open>src/\<close>; its fields are those of the design document's field reference
  (\<^verbatim>\<open>target_rig\<close>, \<^verbatim>\<open>formula\<close>, \<^verbatim>\<open>args\<close>, \<^verbatim>\<open>var\<close>, \<^verbatim>\<open>enqueued_at\<close>, \<^verbatim>\<open>merge\<close>,
  \<^verbatim>\<open>convoy\<close>, \<^verbatim>\<open>base_branch\<close>, \<^verbatim>\<open>no_merge\<close>, \<^verbatim>\<open>account\<close>, \<^verbatim>\<open>agent\<close>,
  \<^verbatim>\<open>hook_raw_bead\<close>, \<^verbatim>\<open>owned\<close>, \<^verbatim>\<open>mode\<close>, \<^verbatim>\<open>dispatch_failures\<close>,
  \<^verbatim>\<open>last_failure\<close>). The resolver reads \<^verbatim>\<open>TargetRig\<close> and \<^verbatim>\<open>DispatchFailures\<close>.
\<close>

record QueueMetadata =
  TargetRig :: string
  meta_Formula :: string
  meta_Args :: string
  meta_Vars :: "string list"
  EnqueuedAt :: string
  meta_Merge :: string
  Convoy :: string
  meta_BaseBranch :: string
  meta_NoMerge :: bool
  meta_Account :: string
  meta_Agent :: string
  meta_HookRawBead :: bool
  meta_Owned :: bool
  Mode :: string
  DispatchFailures :: int
  LastFailure :: string

text \<open>
  Modelled from the spec: the constant \<^verbatim>\<open>maxDispatchFailures\<close> is declared outside
  \<^verbatim>\<open>src/\<close>; the spec and the design document give the circuit-breaker threshold 3.
\<close>

definition maxDispatchFailures :: int where
  "maxDispatchFailures = 3"

definition LabelQueued :: string where
  "LabelQueued = ''gt:queued''"

text \<open>
  The outcome of one \<^verbatim>\<open>bd\<close> query in one directory: the subprocess fails, or its
  output is not the expected JSON, or it decodes to rows.
\<close>

datatype 'a query = CmdFailed error | BadJSON error | Rows "'a list"

record readyBead =
  rb_ID :: string
  rb_Description :: string

record rawBead =
  raw_ID :: string
  raw_Title :: string
  raw_Status :: string
  raw_Description :: string

record queuedBeadInfo =
  ID :: string
  Title :: string
  Status :: string
  qb_TargetRig :: string
  Blocked :: bool

text \<open>
  The test \<^verbatim>\<open>meta != nil && meta.DispatchFailures >= maxDispatchFailures\<close>, with
  \<^verbatim>\<open>ParseQueueMetadata\<close> (not under \<^verbatim>\<open>src/\<close>) as the parameter \<open>parse\<close>.
\<close>

definition circuitBroken :: "(string \<Rightarrow> QueueMetadata option) \<Rightarrow> string \<Rightarrow> bool" where
  "circuitBroken parse description =
     (case parse description of
        None \<Rightarrow> False
      | Some meta \<Rightarrow> DispatchFailures meta \<ge> maxDispatchFailures)"

text \<open>The inner loop of the ready pass: \<^verbatim>\<open>readyIDs[b.ID] = true\<close> unless circuit-broken.\<close>

fun addReadyBeads ::
  "(string \<Rightarrow> QueueMetadata option) \<Rightarrow> readyBead list \<Rightarrow> string set \<Rightarrow> string set" where
  "addReadyBeads parse [] readyIDs = readyIDs"
| "addReadyBeads parse (b # bs) readyIDs =
     (if circuitBroken parse (rb_Description b) then addReadyBeads parse bs readyIDs
      else addReadyBeads parse bs (insert (rb_ID b) readyIDs))"

text \<open>
  The outer loop of the ready pass over the directories: a failed \<^verbatim>\<open>bd ready\<close> and an
  output that does not decode are both skipped.
\<close>

fun collectReadyIDs ::
  "(string \<Rightarrow> QueueMetadata option) \<Rightarrow> (string \<Rightarrow> readyBead query) \<Rightarrow> string list \<Rightarrow>
   string set \<Rightarrow> string set" where
  "collectReadyIDs parse bdReady [] readyIDs = readyIDs"
| "collectReadyIDs parse bdReady (dir # dirs) readyIDs =
     (case bdReady dir of
        Rows readyBeads \<Rightarrow>
          collectReadyIDs parse bdReady dirs (addReadyBeads parse readyBeads readyIDs)
      | _ \<Rightarrow> collectReadyIDs parse bdReady dirs readyIDs)"

text \<open>\<^verbatim>\<open>listQueuedBeadsFrom\<close>: the loop over the decoded rows of one directory.\<close>

fun queuedInfoOfRows ::
  "(string \<Rightarrow> QueueMetadata option) \<Rightarrow> rawBead list \<Rightarrow> queuedBeadInfo list" where
  "queuedInfoOfRows parse [] = []"
| "queuedInfoOfRows parse (r # rs) =
     (case parse (raw_Description r) of
        None \<Rightarrow>
          \<lparr>ID = raw_ID r, Title = raw_Title r, Status = raw_Status r,
            qb_TargetRig = [], Blocked = False\<rparr> # queuedInfoOfRows parse rs
      | Some meta \<Rightarrow>
          if DispatchFailures meta \<ge> maxDispatchFailures then queuedInfoOfRows parse rs
          else \<lparr>ID = raw_ID r, Title = raw_Title r, Status = raw_Status r,
                 qb_TargetRig = TargetRig meta, Blocked = False\<rparr> # queuedInfoOfRows parse rs)"

definition listQueuedBeadsFrom ::
  "(string \<Rightarrow> QueueMetadata option) \<Rightarrow> (string \<Rightarrow> rawBead query) \<Rightarrow> string \<Rightarrow>
   error + queuedBeadInfo list" where
  "listQueuedBeadsFrom parse bdList dir =
     (case bdList dir of
        CmdFailed err \<Rightarrow> Inl err
      | BadJSON err \<Rightarrow> Inl (ParsingQueuedBeads err)
      | Rows raw \<Rightarrow> Inr (queuedInfoOfRows parse raw))"

text \<open>
  The state of the listing pass: \<^verbatim>\<open>result\<close>, \<^verbatim>\<open>seen\<close>, \<^verbatim>\<open>failCount\<close> and
  \<^verbatim>\<open>lastErr\<close>.
\<close>

record listState =
  result :: "queuedBeadInfo list"
  seen :: "string set"
  failCount :: nat
  lastErr :: "error option"

fun addListedBeads :: "string set \<Rightarrow> queuedBeadInfo list \<Rightarrow> listState \<Rightarrow> listState" where
  "addListedBeads readyIDs [] st = st"
| "addListedBeads readyIDs (b # bs) st =
     (if Status b = ''hooked'' \<or> Status b = ''closed'' then addListedBeads readyIDs bs st
      else if ID b \<notin> seen st then
        addListedBeads readyIDs bs
          (st\<lparr>seen := insert (ID b) (seen st),
              result := result st @ [b\<lparr>Blocked := (ID b \<notin> readyIDs)\<rparr>]\<rparr>)
      else addListedBeads readyIDs bs st)"

fun listDirs ::
  "(string \<Rightarrow> QueueMetadata option) \<Rightarrow> (string \<Rightarrow> rawBead query) \<Rightarrow> string set \<Rightarrow>
   string list \<Rightarrow> listState \<Rightarrow> listState" where
  "listDirs parse bdList readyIDs [] st = st"
| "listDirs parse bdList readyIDs (dir # dirs) st =
     (case listQueuedBeadsFrom parse bdList dir of
        Inl err \<Rightarrow>
          listDirs parse bdList readyIDs dirs
            (st\<lparr>failCount := Suc (failCount st), lastErr := Some err\<rparr>)
      | Inr beads \<Rightarrow>
          listDirs parse bdList readyIDs dirs (addListedBeads readyIDs beads st))"

definition initListState :: listState where
  "initListState = \<lparr>result = [], seen = {}, failCount = 0, lastErr = None\<rparr>"

text \<open>
  \<^verbatim>\<open>beadsSearchDirs\<close>: the town root, then every rig directory with a
  \<^verbatim>\<open>.beads\<close> store, directly or under \<^verbatim>\<open>mayor/rig\<close>. The file system is a
  parameter: \<^verbatim>\<open>os.ReadDir\<close> (\<open>None\<close> on error), \<^verbatim>\<open>os.Stat\<close> succeeding, and
  \<^verbatim>\<open>filepath.Join\<close>.
\<close>

record dirEntry =
  Name :: string
  IsDir :: bool

record fsEnv =
  ReadDir :: "string \<Rightarrow> dirEntry list option"
  StatOK :: "string \<Rightarrow> bool"
  Join :: "string list \<Rightarrow> string"

fun searchEntries ::
  "fsEnv \<Rightarrow> string \<Rightarrow> dirEntry list \<Rightarrow> string list \<times> string set \<Rightarrow>
   string list \<times> string set" where
  "searchEntries fs townRoot [] acc = acc"
| "searchEntries fs townRoot (e # es) (dirs, seenDirs) =
     (if \<not> IsDir e \<or> prefix ''.'' (Name e) \<or> Name e = ''mayor'' \<or> Name e = ''settings''
      then searchEntries fs townRoot es (dirs, seenDirs)
      else
        (let rigDir = Join fs [townRoot, Name e];
             beadsDir = Join fs [rigDir, ''.beads''];
             (dirs1, seen1) =
               (if StatOK fs beadsDir \<and> rigDir \<notin> seenDirs
                then (dirs @ [rigDir], insert rigDir seenDirs) else (dirs, seenDirs));
             mayorRigDir = Join fs [rigDir, ''mayor'', ''rig''];
             mayorBeadsDir = Join fs [mayorRigDir, ''.beads''];
             (dirs2, seen2) =
               (if StatOK fs mayorBeadsDir \<and> mayorRigDir \<notin> seen1
                then (dirs1 @ [mayorRigDir], insert mayorRigDir seen1) else (dirs1, seen1))
         in searchEntries fs townRoot es (dirs2, seen2)))"

definition beadsSearchDirs :: "fsEnv \<Rightarrow> string \<Rightarrow> string list" where
  "beadsSearchDirs fs townRoot =
     (case ReadDir fs townRoot of
        None \<Rightarrow> [townRoot]
      | Some entries \<Rightarrow> fst (searchEntries fs townRoot entries ([townRoot], {townRoot})))"

text \<open>
  The body of \<^verbatim>\<open>listQueuedBeads\<close> after \<^verbatim>\<open>dirs := beadsSearchDirs(townRoot)\<close>, with
  the two queries of the store as parameters. \<^verbatim>\<open>lastErr\<close> is set whenever \<^verbatim>\<open>failCount\<close> is positive; the
  \<open>None\<close> branch below is therefore never taken.
\<close>

definition listQueuedBeadsIn ::
  "(string \<Rightarrow> QueueMetadata option) \<Rightarrow> (string \<Rightarrow> readyBead query) \<Rightarrow>
   (string \<Rightarrow> rawBead query) \<Rightarrow> string list \<Rightarrow> error + queuedBeadInfo list" where
  "listQueuedBeadsIn parse bdReady bdList dirs =
     (let readyIDs = collectReadyIDs parse bdReady dirs {};
          st = listDirs parse bdList readyIDs dirs initListState
      in if failCount st = length dirs \<and> failCount st > 0 then
           Inl (AllBeadDirectoriesFailed (failCount st)
                  (case lastErr st of Some e \<Rightarrow> e | None \<Rightarrow> ExecError []))
         else Inr (result st))"

definition listQueuedBeads ::
  "(string \<Rightarrow> QueueMetadata option) \<Rightarrow> fsEnv \<Rightarrow> (string \<Rightarrow> readyBead query) \<Rightarrow>
   (string \<Rightarrow> rawBead query) \<Rightarrow> string \<Rightarrow> error + queuedBeadInfo list" where
  "listQueuedBeads parse fs bdReady bdList townRoot =
     listQueuedBeadsIn parse bdReady bdList (beadsSearchDirs fs townRoot)"

text \<open>
  \<^verbatim>\<open>listAllQueueLabeledBeadIDs\<close>: the same \<^verbatim>\<open>bd list\<close> query, reading only the
  identifiers; a failed command and an undecodable output both count as a failure.
\<close>

fun addIDs :: "rawBead list \<Rightarrow> string list \<times> string set \<Rightarrow> string list \<times> string set" where
  "addIDs [] acc = acc"
| "addIDs (r # rs) (ids, seenIDs) =
     (if raw_ID r \<notin> seenIDs then addIDs rs (ids @ [raw_ID r], insert (raw_ID r) seenIDs)
      else addIDs rs (ids, seenIDs))"

fun allIDsDirs ::
  "(string \<Rightarrow> rawBead query) \<Rightarrow> string list \<Rightarrow>
   (string list \<times> string set) \<times> nat \<times> error option \<Rightarrow>
   (string list \<times> string set) \<times> nat \<times> error option" where
  "allIDsDirs bdList [] acc = acc"
| "allIDsDirs bdList (dir # dirs) (acc, fails, lastE) =
     (case bdList dir of
        CmdFailed err \<Rightarrow> allIDsDirs bdList dirs (acc, Suc fails, Some err)
      | BadJSON err \<Rightarrow> allIDsDirs bdList dirs (acc, Suc fails, Some err)
      | Rows raw \<Rightarrow> allIDsDirs bdList dirs (addIDs raw acc, fails, lastE))"

definition listAllQueueLabeledBeadIDsIn ::
  "(string \<Rightarrow> rawBead query) \<Rightarrow> string list \<Rightarrow> error + string list" where
  "listAllQueueLabeledBeadIDsIn bdList dirs =
     (case allIDsDirs bdList dirs (([], {}), 0, None) of
        ((ids, seenIDs), fails, lastE) \<Rightarrow>
          if fails > 0 \<and> length ids = 0 then
            Inl (AllDirectoriesFailed (case lastE of Some e \<Rightarrow> e | None \<Rightarrow> ExecError []))
          else Inr ids)"

definition listAllQueueLabeledBeadIDs ::
  "fsEnv \<Rightarrow> (string \<Rightarrow> rawBead query) \<Rightarrow> string \<Rightarrow> error + string list" where
  "listAllQueueLabeledBeadIDs fs bdList townRoot =
     listAllQueueLabeledBeadIDsIn bdList (beadsSearchDirs fs townRoot)"

subsection \<open>The ready pass and the listing pass\<close>

lemma addReadyBeads_eq:
  "addReadyBeads parse bs S =
     S \<union> {rb_ID b | b. b \<in> set bs \<and> \<not> circuitBroken parse (rb_Description b)}"
  by (induction bs arbitrary: S) auto

lemma collectReadyIDs_eq:
  "collectReadyIDs parse bdReady dirs S =
     S \<union> {rb_ID b | b d rows. d \<in> set dirs \<and> bdReady d = Rows rows \<and> b \<in> set rows
              \<and> \<not> circuitBroken parse (rb_Description b)}"
proof (induction dirs arbitrary: S)
  case Nil
  then show ?case by simp
next
  case (Cons d ds)
  show ?case
  proof (cases "bdReady d")
    case (Rows rows)
    then show ?thesis
      by (auto simp: Cons.IH addReadyBeads_eq)
  next
    case (CmdFailed e)
    then show ?thesis by (auto simp: Cons.IH)
  next
    case (BadJSON e)
    then show ?thesis by (auto simp: Cons.IH)
  qed
qed

definition infoOfRow :: "(string \<Rightarrow> QueueMetadata option) \<Rightarrow> rawBead \<Rightarrow> queuedBeadInfo" where
  "infoOfRow parse r =
     \<lparr>ID = raw_ID r, Title = raw_Title r, Status = raw_Status r,
      qb_TargetRig = (case parse (raw_Description r) of None \<Rightarrow> [] | Some meta \<Rightarrow> TargetRig meta),
      Blocked = False\<rparr>"

lemma queuedInfoOfRows_eq:
  "queuedInfoOfRows parse rs =
     map (infoOfRow parse) (filter (\<lambda>r. \<not> circuitBroken parse (raw_Description r)) rs)"
  by (induction rs) (auto simp: infoOfRow_def circuitBroken_def split: option.splits)

definition listInv :: "string set \<Rightarrow> listState \<Rightarrow> bool" where
  "listInv readyIDs st \<longleftrightarrow>
     (\<forall>b \<in> set (result st). Status b \<noteq> ''hooked'' \<and> Status b \<noteq> ''closed''
        \<and> Blocked b = (ID b \<notin> readyIDs))
     \<and> ID ` set (result st) = seen st \<and> distinct (map ID (result st))"

lemma addListedBeads_inv:
  "listInv R st \<Longrightarrow> listInv R (addListedBeads R bs st)"
proof (induction bs arbitrary: st)
  case Nil then show ?case by simp
next
  case (Cons b bs)
  show ?case
  proof (cases "Status b = ''hooked'' \<or> Status b = ''closed''")
    case True
    then show ?thesis using Cons by simp
  next
    case False
    show ?thesis
    proof (cases "ID b \<in> seen st")
      case True
      then show ?thesis using False Cons by simp
    next
      case notseen: False
      have "listInv R (st\<lparr>seen := insert (ID b) (seen st),
              result := result st @ [b\<lparr>Blocked := (ID b \<notin> R)\<rparr>]\<rparr>)"
        using Cons.prems False notseen unfolding listInv_def by auto
      then show ?thesis using False notseen Cons.IH by simp
    qed
  qed
qed

lemma addListedBeads_seen:
  "seen (addListedBeads R bs st) =
     seen st \<union> {ID b | b. b \<in> set bs \<and> Status b \<noteq> ''hooked'' \<and> Status b \<noteq> ''closed''}"
  by (induction bs arbitrary: st) auto

lemma addListedBeads_fail:
  "failCount (addListedBeads R bs st) = failCount st \<and> lastErr (addListedBeads R bs st) = lastErr st"
  by (induction bs arbitrary: st) auto

lemma listDirs_inv:
  "listInv R st \<Longrightarrow> listInv R (listDirs parse bdList R dirs st)"
proof (induction dirs arbitrary: st)
  case Nil then show ?case by simp
next
  case (Cons d ds)
  show ?case
  proof (cases "listQueuedBeadsFrom parse bdList d")
    case (Inl e)
    have "listInv R (st\<lparr>failCount := Suc (failCount st), lastErr := Some e\<rparr>)"
      using Cons.prems by (simp add: listInv_def)
    then show ?thesis using Inl Cons.IH by simp
  next
    case (Inr beads)
    then show ?thesis using Cons.IH addListedBeads_inv [OF Cons.prems] by simp
  qed
qed

lemma listDirs_seen:
  "seen (listDirs parse bdList R dirs st) =
     seen st \<union> {ID b | b d beads. d \<in> set dirs \<and> listQueuedBeadsFrom parse bdList d = Inr beads
        \<and> b \<in> set beads \<and> Status b \<noteq> ''hooked'' \<and> Status b \<noteq> ''closed''}"
proof (induction dirs arbitrary: st)
  case Nil then show ?case by simp
next
  case (Cons d ds)
  show ?case
  proof (cases "listQueuedBeadsFrom parse bdList d")
    case (Inl e)
    then show ?thesis by (auto simp: Cons.IH)
  next
    case (Inr beads)
    then show ?thesis by (auto simp: Cons.IH addListedBeads_seen)
  qed
qed

lemma listDirs_failCount:
  "failCount (listDirs parse bdList R dirs st) =
     failCount st + length (filter (\<lambda>d. \<exists>e. listQueuedBeadsFrom parse bdList d = Inl e) dirs)"
proof (induction dirs arbitrary: st)
  case Nil then show ?case by simp
next
  case (Cons d ds)
  show ?case
    by (cases "listQueuedBeadsFrom parse bdList d") (simp_all add: Cons.IH addListedBeads_fail)
qed

lemma listed_ids_of_rows:
  "{ID b | b. b \<in> set (queuedInfoOfRows parse rows) \<and> Status b \<noteq> ''hooked'' \<and> Status b \<noteq> ''closed''}
   = {raw_ID r | r. r \<in> set rows \<and> raw_Status r \<noteq> ''hooked'' \<and> raw_Status r \<noteq> ''closed''
        \<and> \<not> circuitBroken parse (raw_Description r)}"
  (is "?L = ?R")
proof (intro set_eqI iffI)
  fix x assume "x \<in> ?L"
  then show "x \<in> ?R" by (auto simp: queuedInfoOfRows_eq infoOfRow_def)
next
  fix x assume "x \<in> ?R"
  then obtain r where r: "x = raw_ID r" "r \<in> set rows" "raw_Status r \<noteq> ''hooked''"
    "raw_Status r \<noteq> ''closed''" "\<not> circuitBroken parse (raw_Description r)" by blast
  then have "infoOfRow parse r \<in> set (queuedInfoOfRows parse rows)"
    by (simp add: queuedInfoOfRows_eq)
  moreover have "ID (infoOfRow parse r) = x" "Status (infoOfRow parse r) = raw_Status r"
    using r by (simp_all add: infoOfRow_def)
  ultimately show "x \<in> ?L" using r by force
qed

definition listedIDs :: "(string \<Rightarrow> QueueMetadata option) \<Rightarrow> rawBead query \<Rightarrow> string set" where
  "listedIDs parse q =
     (case q of
        Rows rows \<Rightarrow> {raw_ID r | r. r \<in> set rows \<and> raw_Status r \<noteq> ''hooked''
          \<and> raw_Status r \<noteq> ''closed'' \<and> \<not> circuitBroken parse (raw_Description r)}
      | _ \<Rightarrow> {})"

lemma listDirs_seen_listed:
  "seen (listDirs parse bdList R dirs st) = seen st \<union> (\<Union>d \<in> set dirs. listedIDs parse (bdList d))"
proof (induction dirs arbitrary: st)
  case Nil then show ?case by simp
next
  case (Cons d ds)
  show ?case
  proof (cases "bdList d")
    case (CmdFailed e)
    then show ?thesis by (simp add: Cons.IH listQueuedBeadsFrom_def listedIDs_def)
  next
    case (BadJSON e)
    then show ?thesis by (simp add: Cons.IH listQueuedBeadsFrom_def listedIDs_def)
  next
    case (Rows rows)
    have "seen (addListedBeads R (queuedInfoOfRows parse rows) st) =
        seen st \<union> listedIDs parse (bdList d)"
      by (simp add: addListedBeads_seen listed_ids_of_rows listedIDs_def Rows)
    then show ?thesis using Rows
      by (simp add: Cons.IH listQueuedBeadsFrom_def Un_assoc)
  qed
qed

lemma listedIDs_Union:
  "(\<Union>d \<in> set dirs. listedIDs parse (bdList d)) =
     {raw_ID r | r d rows. d \<in> set dirs \<and> bdList d = Rows rows \<and> r \<in> set rows
        \<and> raw_Status r \<noteq> ''hooked'' \<and> raw_Status r \<noteq> ''closed''
        \<and> \<not> circuitBroken parse (raw_Description r)}"
  (is "?L = ?R")
proof (intro set_eqI iffI)
  fix x assume "x \<in> ?L"
  then obtain d where "d \<in> set dirs" "x \<in> listedIDs parse (bdList d)" by blast
  then show "x \<in> ?R" by (cases "bdList d") (auto simp: listedIDs_def)
next
  fix x assume "x \<in> ?R"
  then obtain r d rows where "x = raw_ID r" "d \<in> set dirs" "bdList d = Rows rows" "r \<in> set rows"
    "raw_Status r \<noteq> ''hooked''" "raw_Status r \<noteq> ''closed''"
    "\<not> circuitBroken parse (raw_Description r)" by blast
  then have "x \<in> listedIDs parse (bdList d)" by (auto simp: listedIDs_def)
  then show "x \<in> ?L" using \<open>d \<in> set dirs\<close> by blast
qed

lemma listDirs_seen_rows:
  "seen (listDirs parse bdList R dirs st) =
     seen st \<union> {raw_ID r | r d rows. d \<in> set dirs \<and> bdList d = Rows rows \<and> r \<in> set rows
        \<and> raw_Status r \<noteq> ''hooked'' \<and> raw_Status r \<noteq> ''closed''
        \<and> \<not> circuitBroken parse (raw_Description r)}"
  by (simp only: listDirs_seen_listed listedIDs_Union)


subsection \<open>When the listing reports an error\<close>

lemma length_filter_eq_length:
  "length (filter P xs) = length xs \<longleftrightarrow> (\<forall>x \<in> set xs. P x)"
proof -
  have "length (filter P xs) = length xs \<longleftrightarrow> length (filter (\<lambda>x. \<not> P x) xs) = 0"
    using sum_length_filter_compl [of P xs] by linarith
  then show ?thesis by (simp add: filter_empty_conv)
qed

lemma listQueuedBeadsIn_error_iff:
  "(\<exists>e. listQueuedBeadsIn parse bdReady bdList dirs = Inl e) \<longleftrightarrow>
     dirs \<noteq> [] \<and> (\<forall>d \<in> set dirs. \<exists>e. listQueuedBeadsFrom parse bdList d = Inl e)"
proof -
  define fails where "fails = (\<lambda>d. \<exists>e. listQueuedBeadsFrom parse bdList d = Inl e)"
  define st where
    "st = listDirs parse bdList (collectReadyIDs parse bdReady dirs {}) dirs initListState"
  have fc: "failCount st = length (filter fails dirs)"
    unfolding st_def fails_def by (simp add: listDirs_failCount initListState_def)
  have "(\<exists>e. listQueuedBeadsIn parse bdReady bdList dirs = Inl e)
      \<longleftrightarrow> failCount st = length dirs \<and> 0 < failCount st"
    unfolding listQueuedBeadsIn_def Let_def st_def [symmetric] by auto
  also have "\<dots> \<longleftrightarrow> (\<forall>d \<in> set dirs. fails d) \<and> 0 < length dirs"
    unfolding fc using length_filter_eq_length [of fails dirs] by auto
  also have "\<dots> \<longleftrightarrow> dirs \<noteq> [] \<and> (\<forall>d \<in> set dirs. fails d)"
    by auto
  finally show ?thesis unfolding fails_def .
qed

lemma searchEntries_nonempty:
  "dirs \<noteq> [] \<Longrightarrow> fst (searchEntries fs townRoot es (dirs, seenDirs)) \<noteq> []"
proof (induction es arbitrary: dirs seenDirs)
  case Nil then show ?case by simp
next
  case (Cons e es)
  then show ?case
    by (simp add: Let_def split: prod.splits if_splits)
qed

lemma beadsSearchDirs_nonempty: "beadsSearchDirs fs townRoot \<noteq> []"
  by (simp add: beadsSearchDirs_def searchEntries_nonempty split: option.splits)

fun isRows :: "'a query \<Rightarrow> bool" where
  "isRows (Rows _) = True"
| "isRows _ = False"

lemma addIDs_snd: "snd (addIDs rs (ids, S)) = S \<union> raw_ID ` set rs"
  by (induction rs arbitrary: ids S) auto

lemma addIDs_fst: "set (fst (addIDs rs (ids, S))) = set ids \<union> (raw_ID ` set rs - S)"
  by (induction rs arbitrary: ids S) auto

lemma addIDs_empty_iff:
  "fst (addIDs rs (ids, set ids)) = [] \<longleftrightarrow> ids = [] \<and> rs = []"
proof -
  have "fst (addIDs rs (ids, set ids)) = [] \<longleftrightarrow> set (fst (addIDs rs (ids, set ids))) = {}"
    by simp
  also have "\<dots> \<longleftrightarrow> ids = [] \<and> rs = []"
    unfolding addIDs_fst by auto
  finally show ?thesis .
qed

lemma allIDsDirs_spec:
  "(case allIDsDirs bdList dirs ((ids, set ids), n, le) of
      ((ids', S'), n', le') \<Rightarrow>
        set ids' = S'
      \<and> (ids' = [] \<longleftrightarrow> ids = [] \<and> (\<forall>d \<in> set dirs. \<forall>rows. bdList d = Rows rows \<longrightarrow> rows = []))
      \<and> n' = n + length (filter (\<lambda>d. \<not> isRows (bdList d)) dirs))"
proof (induction dirs arbitrary: ids n le)
  case Nil then show ?case by simp
next
  case (Cons d ds)
  show ?case
  proof (cases "bdList d")
    case (CmdFailed e)
    then show ?thesis using Cons.IH [of ids "Suc n" "Some e"] by (simp split: prod.splits)
  next
    case (BadJSON e)
    then show ?thesis using Cons.IH [of ids "Suc n" "Some e"] by (simp split: prod.splits)
  next
    case (Rows rows)
    obtain ids1 S1 where a: "addIDs rows (ids, set ids) = (ids1, S1)"
      by (cases "addIDs rows (ids, set ids)")
    have inv: "S1 = set ids1"
      using addIDs_snd [of rows ids "set ids"] addIDs_fst [of rows ids "set ids"] a by auto
    have emp: "ids1 = [] \<longleftrightarrow> ids = [] \<and> rows = []"
      using addIDs_empty_iff [of rows ids] a by simp
    show ?thesis using Rows a emp Cons.IH [of ids1 n le] unfolding inv
      by (simp split: prod.splits)
  qed
qed

lemma listAllQueueLabeledBeadIDsIn_error_iff:
  "(\<exists>e. listAllQueueLabeledBeadIDsIn bdList dirs = Inl e) \<longleftrightarrow>
     (\<exists>d \<in> set dirs. \<not> isRows (bdList d))
     \<and> (\<forall>d \<in> set dirs. \<forall>rows. bdList d = Rows rows \<longrightarrow> rows = [])"
proof -
  obtain ids' S' n' le' where r: "allIDsDirs bdList dirs (([], {}), 0, None) = ((ids', S'), n', le')"
    by (metis prod.exhaust)
  have "n' = length (filter (\<lambda>d. \<not> isRows (bdList d)) dirs)"
    and "ids' = [] \<longleftrightarrow> (\<forall>d \<in> set dirs. \<forall>rows. bdList d = Rows rows \<longrightarrow> rows = [])"
    using allIDsDirs_spec [where ids = "[]" and bdList = bdList and dirs = dirs and n = 0 and le = None] r
    by simp_all
  moreover have "0 < length (filter (\<lambda>d. \<not> isRows (bdList d)) dirs)
       \<longleftrightarrow> (\<exists>d \<in> set dirs. \<not> isRows (bdList d))"
    by (simp add: filter_empty_conv)
  ultimately show ?thesis
    by (simp add: listAllQueueLabeledBeadIDsIn_def r)
qed

subsection \<open>The listing\<close>

text \<open>
  Claim C1. When the resolver returns a listing: the ready subset holds exactly the
  identifiers of the rows of \<^verbatim>\<open>bd ready\<close> whose decoded metadata does not show three or
  more dispatch failures; no listed item is hooked or closed; the \<^verbatim>\<open>Blocked\<close> field of
  every listed item says that its identifier is not in the ready subset; identifiers are
  listed once; and the listed identifiers are those of the rows of \<^verbatim>\<open>bd list\<close> that are
  neither hooked, closed nor circuit-broken.
\<close>

theorem listQueuedBeads_ready_subset_and_blocked:
  assumes "listQueuedBeads parse fs bdReady bdList townRoot = Inr listing"
  shows "collectReadyIDs parse bdReady (beadsSearchDirs fs townRoot) {} =
           {rb_ID b | b d rows. d \<in> set (beadsSearchDirs fs townRoot) \<and> bdReady d = Rows rows
              \<and> b \<in> set rows
              \<and> \<not> (\<exists>meta. parse (rb_Description b) = Some meta \<and> 3 \<le> DispatchFailures meta)}
       \<and> (\<forall>b \<in> set listing. Status b \<noteq> ''hooked'' \<and> Status b \<noteq> ''closed''
             \<and> Blocked b = (ID b \<notin> collectReadyIDs parse bdReady (beadsSearchDirs fs townRoot) {}))
       \<and> distinct (map ID listing)
       \<and> ID ` set listing =
           {raw_ID r | r d rows. d \<in> set (beadsSearchDirs fs townRoot) \<and> bdList d = Rows rows
              \<and> r \<in> set rows \<and> raw_Status r \<noteq> ''hooked'' \<and> raw_Status r \<noteq> ''closed''
              \<and> \<not> (\<exists>meta. parse (raw_Description r) = Some meta \<and> 3 \<le> DispatchFailures meta)}"
proof -
  let ?dirs = "beadsSearchDirs fs townRoot"
  let ?R = "collectReadyIDs parse bdReady ?dirs {}"
  let ?st = "listDirs parse bdList ?R ?dirs initListState"
  have cb: "\<And>d. (\<exists>meta. parse d = Some meta \<and> 3 \<le> DispatchFailures meta)
      \<longleftrightarrow> circuitBroken parse d"
    by (auto simp: circuitBroken_def maxDispatchFailures_def split: option.splits)
  have listing: "listing = result ?st"
    using assms by (simp add: listQueuedBeads_def listQueuedBeadsIn_def Let_def split: if_splits)
  have inv: "listInv ?R ?st"
    by (rule listDirs_inv) (simp add: listInv_def initListState_def)
  have ready: "?R = {rb_ID b | b d rows. d \<in> set ?dirs \<and> bdReady d = Rows rows \<and> b \<in> set rows
              \<and> \<not> (\<exists>meta. parse (rb_Description b) = Some meta \<and> 3 \<le> DispatchFailures meta)}"
    unfolding cb by (simp add: collectReadyIDs_eq)
  have "ID ` set listing = seen ?st"
    using inv listing by (simp add: listInv_def)
  then have ids: "ID ` set listing = {raw_ID r | r d rows. d \<in> set ?dirs \<and> bdList d = Rows rows
              \<and> r \<in> set rows \<and> raw_Status r \<noteq> ''hooked'' \<and> raw_Status r \<noteq> ''closed''
              \<and> \<not> (\<exists>meta. parse (raw_Description r) = Some meta \<and> 3 \<le> DispatchFailures meta)}"
    unfolding cb by (simp add: listDirs_seen_rows initListState_def)
  have blocked: "\<forall>b \<in> set listing. Status b \<noteq> ''hooked'' \<and> Status b \<noteq> ''closed''
             \<and> Blocked b = (ID b \<notin> ?R)"
    using inv unfolding listing listInv_def by simp
  have dist: "distinct (map ID listing)"
    using inv unfolding listing listInv_def by simp
  from ready blocked dist ids show ?thesis by (intro conjI)
qed

text \<open>
  A concrete town for the resolver: the root and one rig directory with a store.
  \<open>joinSlash\<close> joins path elements with a slash, as \<^verbatim>\<open>filepath.Join\<close> does on clean,
  non-empty elements.
\<close>

fun joinSlash :: "string list \<Rightarrow> string" where
  "joinSlash [] = []"
| "joinSlash [x] = x"
| "joinSlash (x # y # ys) = x @ ''/'' @ joinSlash (y # ys)"

definition demoFs :: fsEnv where
  "demoFs =
     \<lparr>ReadDir = (\<lambda>d. if d = ''/town'' then
                        Some [\<lparr>Name = ''.git'', IsDir = True\<rparr>, \<lparr>Name = ''rig'', IsDir = True\<rparr>,
                              \<lparr>Name = ''notes.txt'', IsDir = False\<rparr>]
                      else None),
      StatOK = (\<lambda>p. p = ''/town/rig/.beads''),
      Join = joinSlash\<rparr>"

definition demoMeta :: QueueMetadata where
  "demoMeta =
     \<lparr>TargetRig = ''rig'', meta_Formula = ''mol-polecat-work'', meta_Args = [], meta_Vars = [],
      EnqueuedAt = ''2026-02-19T10:00:00Z'', meta_Merge = [], Convoy = [], meta_BaseBranch = [],
      meta_NoMerge = False, meta_Account = [], meta_Agent = [], meta_HookRawBead = False,
      meta_Owned = False, Mode = [], DispatchFailures = 0, LastFailure = []\<rparr>"

definition demoParse :: "string \<Rightarrow> QueueMetadata option" where
  "demoParse d =
     (if d = ''ok'' then Some demoMeta
      else if d = ''broken'' then
        Some (demoMeta\<lparr>DispatchFailures := 3, LastFailure := ''spawn failed''\<rparr>)
      else None)"

definition demoReady :: "string \<Rightarrow> readyBead query" where
  "demoReady d =
     (if d = ''/town/rig'' then
        Rows [\<lparr>rb_ID = ''gt-1'', rb_Description = ''ok''\<rparr>,
              \<lparr>rb_ID = ''gt-3'', rb_Description = ''broken''\<rparr>]
      else Rows [])"

definition demoList :: "string \<Rightarrow> rawBead query" where
  "demoList d =
     (if d = ''/town/rig'' then
        Rows [\<lparr>raw_ID = ''gt-1'', raw_Title = ''one'', raw_Status = ''open'', raw_Description = ''ok''\<rparr>,
              \<lparr>raw_ID = ''gt-2'', raw_Title = ''two'', raw_Status = ''open'', raw_Description = ''none''\<rparr>,
              \<lparr>raw_ID = ''gt-3'', raw_Title = ''three'', raw_Status = ''open'',
                raw_Description = ''broken''\<rparr>,
              \<lparr>raw_ID = ''gt-4'', raw_Title = ''four'', raw_Status = ''hooked'', raw_Description = ''ok''\<rparr>,
              \<lparr>raw_ID = ''gt-1'', raw_Title = ''one'', raw_Status = ''open'', raw_Description = ''ok''\<rparr>]
      else CmdFailed (ExecError ''bd list: exit status 1''))"

definition demoListing :: "queuedBeadInfo list" where
  "demoListing =
     [\<lparr>ID = ''gt-1'', Title = ''one'', Status = ''open'', qb_TargetRig = ''rig'', Blocked = False\<rparr>,
      \<lparr>ID = ''gt-2'', Title = ''two'', Status = ''open'', qb_TargetRig = [], Blocked = True\<rparr>]"

lemma demo_dirs: "beadsSearchDirs demoFs ''/town'' = [''/town'', ''/town/rig'']"
  by (simp add: beadsSearchDirs_def demoFs_def Let_def)

lemma demo_listing:
  "listQueuedBeads demoParse demoFs demoReady demoList ''/town'' = Inr demoListing"
  by (simp add: listQueuedBeads_def listQueuedBeadsIn_def demo_dirs demoReady_def demoList_def
      demoParse_def demoMeta_def demoListing_def initListState_def listQueuedBeadsFrom_def
      circuitBroken_def maxDispatchFailures_def Let_def)

theorem listQueuedBeads_ready_subset_and_blocked_witness:
  "listQueuedBeads demoParse demoFs demoReady demoList ''/town'' = Inr demoListing
   \<and> collectReadyIDs demoParse demoReady (beadsSearchDirs demoFs ''/town'') {} = {''gt-1''}
   \<and> map Blocked demoListing = [False, True]
   \<and> distinct (map ID demoListing)
   \<and> ID ` set demoListing = {''gt-1'', ''gt-2''}"
proof -
  have run: "listQueuedBeads demoParse demoFs demoReady demoList ''/town'' = Inr demoListing"
    by (rule demo_listing)
  have ready: "collectReadyIDs demoParse demoReady (beadsSearchDirs demoFs ''/town'') {} = {''gt-1''}"
    by (simp add: demo_dirs demoReady_def demoParse_def demoMeta_def circuitBroken_def
        maxDispatchFailures_def)
  from listQueuedBeads_ready_subset_and_blocked [OF run]
  have "distinct (map ID demoListing)" by blast
  with run ready show ?thesis by (simp add: demoListing_def)
qed

definition demoListPartial :: "string \<Rightarrow> rawBead query" where
  "demoListPartial d =
     (if d = ''/town'' then CmdFailed (ExecError ''bd list: exit status 1'') else Rows [])"

text \<open>
  Claim C2, evaluated where the code departs from it. The town has two directories; the
  query fails in the root and succeeds, with no rows, in the rig.
  \<^verbatim>\<open>listAllQueueLabeledBeadIDs\<close> tests \<^verbatim>\<open>failCount > 0 && len(ids) == 0\<close> and reports
  that all directories failed, although one of them answered; \<^verbatim>\<open>listQueuedBeads\<close>
  tests \<^verbatim>\<open>failCount == len(dirs)\<close> and returns the empty partial listing with no error.
\<close>

theorem listAllQueueLabeledBeadIDs_partial_failure:
  "listAllQueueLabeledBeadIDs demoFs demoListPartial ''/town''
     = Inl (AllDirectoriesFailed (ExecError ''bd list: exit status 1''))
   \<and> demoListPartial ''/town/rig'' = Rows []
   \<and> listQueuedBeads demoParse demoFs demoReady demoListPartial ''/town'' = Inr []"
  by (simp add: listAllQueueLabeledBeadIDs_def listAllQueueLabeledBeadIDsIn_def demo_dirs
      demoListPartial_def listQueuedBeads_def listQueuedBeadsIn_def listQueuedBeadsFrom_def
      initListState_def Let_def)

section \<open>Batch enqueue: task batches, convoy and epic fan-out\<close>

text \<open>
  \<^verbatim>\<open>EnqueueOptions\<close> is declared with \<^verbatim>\<open>enqueueBead\<close>, outside \<^verbatim>\<open>src/\<close>; the fields
  are the ones the composite literals of the callers set (an omitted field is the zero
  value).
\<close>

record EnqueueOptions =
  Formula :: string
  Args :: string
  Vars :: "string list"
  Merge :: string
  BaseBranch :: string
  NoConvoy :: bool
  Owned :: bool
  DryRun :: bool
  Force :: bool
  NoMerge :: bool
  Account :: string
  Agent :: string
  HookRawBead :: bool
  Ralph :: bool

text \<open>The package-level flag variables of \<^verbatim>\<open>gt queue <id>\<close>.\<close>

record queueFlags =
  queueOnTarget :: string
  queueFormula :: string
  queueHookRawBead :: bool
  queueArgs :: string
  queueVars :: "string list"
  queueMerge :: string
  queueBaseBranch :: string
  queueNoConvoy :: bool
  queueOwned :: bool
  queueNoMerge :: bool
  queueForce :: bool
  queueDryRun :: bool
  queueAccount :: string
  queueAgent :: string
  queueRalph :: bool

record trackedIssue =
  ti_ID :: string
  ti_Title :: string
  ti_Status :: string
  ti_Assignee :: string

record depRow =
  dep_ID :: string
  dep_Title :: string
  dep_Status :: string

text \<open>
  The outcome of \<^verbatim>\<open>bd dep list\<close>: the run fails (with what it wrote to stdout and
  stderr), or its output does not decode, or it decodes to rows.
\<close>

datatype depListResult =
    DepRunFailed error string string
  | DepBadJSON error
  | DepRows "depRow list"

text \<open>
  The collaborators of the enqueue commands, all outside \<^verbatim>\<open>src/\<close>. Reads take the
  world \<open>'w\<close>; \<^verbatim>\<open>enqueueBead\<close> is the only one that changes it. \<^verbatim>\<open>JoinPath\<close> and
  \<^verbatim>\<open>TrimSpace\<close> are \<^verbatim>\<open>filepath.Join\<close> and \<^verbatim>\<open>strings.TrimSpace\<close> of the standard
  library.
\<close>

record 'w routerEnv = "'w workspaceEnv" +
  getBeadInfo :: "'w \<Rightarrow> string \<Rightarrow> error + beadInfo"
  verifyBeadExists :: "'w \<Rightarrow> string \<Rightarrow> error option"
  getTrackedIssues :: "'w \<Rightarrow> string \<Rightarrow> string \<Rightarrow> error + trackedIssue list"
  bdDepList :: "'w \<Rightarrow> string \<Rightarrow> depListResult"
  resolveRigForBead :: "'w \<Rightarrow> string \<Rightarrow> string \<Rightarrow> string"
  IsRigName :: "'w \<Rightarrow> string \<Rightarrow> string \<times> bool"
  resolveFormula :: "string \<Rightarrow> bool \<Rightarrow> string"
  hasQueuedLabel :: "string list \<Rightarrow> bool"
  JoinPath :: "string list \<Rightarrow> string"
  TrimSpace :: "string \<Rightarrow> string"
  enqueueBead :: "string \<Rightarrow> string \<Rightarrow> EnqueueOptions \<Rightarrow> 'w \<Rightarrow> error option \<times> 'w"

definition zeroEnqueueOptions :: EnqueueOptions where
  "zeroEnqueueOptions =
     \<lparr>Formula = [], Args = [], Vars = [], Merge = [], BaseBranch = [], NoConvoy = False,
      Owned = False, DryRun = False, Force = False, NoMerge = False, Account = [], Agent = [],
      HookRawBead = False, Ralph = False\<rparr>"

subsection \<open>\<^verbatim>\<open>runTaskQueueEnqueue\<close>\<close>

text \<open>The options literal of the task path, built from the flags.\<close>

definition taskEnqueueOptions :: "queueFlags \<Rightarrow> string \<Rightarrow> EnqueueOptions" where
  "taskEnqueueOptions flags formula =
     \<lparr>Formula = formula, Args = queueArgs flags, Vars = queueVars flags,
      Merge = queueMerge flags, BaseBranch = queueBaseBranch flags,
      NoConvoy = queueNoConvoy flags, Owned = queueOwned flags, DryRun = queueDryRun flags,
      Force = queueForce flags, NoMerge = queueNoMerge flags, Account = queueAccount flags,
      Agent = queueAgent flags, HookRawBead = queueHookRawBead flags,
      Ralph = queueRalph flags\<rparr>"

text \<open>
  The trailing-rig check: with two or more arguments, a last argument that is a rig name
  is the explicit rig and is removed from the bead arguments.
\<close>

definition splitTrailingRig :: "'w routerEnv \<Rightarrow> 'w \<Rightarrow> string list \<Rightarrow> string \<times> string list" where
  "splitTrailingRig env w args =
     (if length args \<ge> 2 then
        (case IsRigName env w (last args) of
           (rigName, True) \<Rightarrow> (rigName, butlast args)
         | (_, False) \<Rightarrow> ([], args))
      else ([], args))"

text \<open>
  The validation loop over \<^verbatim>\<open>beadArgs[1:]\<close>: the first identifier that cannot be
  resolved, or that is not a task, ends the command with an error.
\<close>

fun validateBatch :: "'w routerEnv \<Rightarrow> 'w \<Rightarrow> string list \<Rightarrow> error option" where
  "validateBatch env w [] = None"
| "validateBatch env w (beadID # rest) =
     (case detectQueueIDType (getBeadInfo env) w beadID of
        Inl err \<Rightarrow> Some (BatchCannotResolveBead beadID err)
      | Inr idType \<Rightarrow>
          if idType \<noteq> ''task'' then Some (MixedIDTypes beadID idType)
          else validateBatch env w rest)"

text \<open>
  The enqueue loop of the batch. It returns \<^verbatim>\<open>successCount\<close>, the failure lines it
  printed (identifier and error) and the world after the last call.
\<close>

fun enqueueTaskBeads ::
  "'w routerEnv \<Rightarrow> EnqueueOptions \<Rightarrow> string \<Rightarrow> string \<Rightarrow> string list \<Rightarrow>
   nat \<times> (string \<times> error) list \<times> 'w \<Rightarrow> nat \<times> (string \<times> error) list \<times> 'w" where
  "enqueueTaskBeads env opts townRoot explicitRig [] acc = acc"
| "enqueueTaskBeads env opts townRoot explicitRig (beadID # rest) (successCount, failed, w) =
     (let rigName = (if explicitRig = [] then resolveRigForBead env w townRoot beadID
                     else explicitRig)
      in if rigName = [] then
           enqueueTaskBeads env opts townRoot explicitRig rest
             (successCount, failed @ [(beadID, CannotResolveRig beadID)], w)
         else
           (case enqueueBead env beadID rigName opts w of
              (Some err, w') \<Rightarrow>
                enqueueTaskBeads env opts townRoot explicitRig rest
                  (successCount, failed @ [(beadID, err)], w')
            | (None, w') \<Rightarrow>
                enqueueTaskBeads env opts townRoot explicitRig rest
                  (Suc successCount, failed, w')))"

definition runTaskQueueEnqueue ::
  "'w routerEnv \<Rightarrow> queueFlags \<Rightarrow> string list \<Rightarrow> 'w \<Rightarrow> error option \<times> 'w" where
  "runTaskQueueEnqueue env flags args w =
     (case FindFromCwdOrError env w of
        Inl err \<Rightarrow> (Some err, w)
      | Inr townRoot \<Rightarrow>
          (case splitTrailingRig env w args of
             (explicitRig, beadArgs) \<Rightarrow>
               (let formula = resolveFormula env (queueFormula flags) (queueHookRawBead flags);
                    opts = taskEnqueueOptions flags formula
                in case beadArgs of
                     [] \<Rightarrow> (Some (Panic ''slice bounds out of range [1:0]''), w)
                   | [beadID] \<Rightarrow>
                       (let rigName = (if explicitRig = []
                                       then resolveRigForBead env w townRoot beadID
                                       else explicitRig)
                        in if rigName = [] then (Some (CannotResolveRig beadID), w)
                           else enqueueBead env beadID rigName opts w)
                   | first # others \<Rightarrow>
                       (case validateBatch env w others of
                          Some err \<Rightarrow> (Some err, w)
                        | None \<Rightarrow>
                            (case enqueueTaskBeads env opts townRoot explicitRig beadArgs (0, [], w) of
                               (successCount, failed, w') \<Rightarrow>
                                 (if successCount = 0
                                  then Some (AllEnqueueAttemptsFailed (length beadArgs))
                                  else None, w'))))))"

subsection \<open>\<^verbatim>\<open>runConvoyQueueByID\<close> and \<^verbatim>\<open>runEpicQueueByID\<close>\<close>

record convoyQueueOpts =
  cq_Formula :: string
  cq_HookRawBead :: bool
  cq_Force :: bool
  cq_DryRun :: bool

record epicQueueOpts =
  eq_Formula :: string
  eq_HookRawBead :: bool
  eq_Force :: bool
  eq_DryRun :: bool

record queueCandidate =
  qc_ID :: string
  qc_Title :: string
  qc_RigName :: string

record epicChild =
  ec_ID :: string
  ec_Title :: string
  ec_Status :: string
  ec_Assignee :: string
  ec_Labels :: "string list"

text \<open>
  The filter loop of the convoy command. The skip counters only feed the printed summary
  and are left out.
\<close>

fun convoyCandidates ::
  "'w routerEnv \<Rightarrow> convoyQueueOpts \<Rightarrow> string \<Rightarrow> 'w \<Rightarrow> trackedIssue list \<Rightarrow>
   queueCandidate list" where
  "convoyCandidates env opts townRoot w [] = []"
| "convoyCandidates env opts townRoot w (t # ts) =
     (if ti_Status t = ''closed'' \<or> ti_Status t = ''tombstone''
      then convoyCandidates env opts townRoot w ts
      else if ti_Assignee t \<noteq> [] \<and> \<not> cq_Force opts
      then convoyCandidates env opts townRoot w ts
      else (case getBeadInfo env w (ti_ID t) of
              Inl err \<Rightarrow> convoyCandidates env opts townRoot w ts
            | Inr info \<Rightarrow>
                if hasQueuedLabel env (info_Labels info)
                then convoyCandidates env opts townRoot w ts
                else (let rigName = resolveRigForBead env w townRoot (ti_ID t)
                      in if rigName = [] then convoyCandidates env opts townRoot w ts
                         else \<lparr>qc_ID = ti_ID t, qc_Title = ti_Title t, qc_RigName = rigName\<rparr>
                                # convoyCandidates env opts townRoot w ts)))"

text \<open>
  The enqueue loop shared in shape by the convoy and the epic command: one
  \<^verbatim>\<open>enqueueBead\<close> call per candidate; an error is printed and the loop continues.
\<close>

fun enqueueCandidates ::
  "'w routerEnv \<Rightarrow> EnqueueOptions \<Rightarrow> queueCandidate list \<Rightarrow>
   nat \<times> (string \<times> error) list \<times> 'w \<Rightarrow> nat \<times> (string \<times> error) list \<times> 'w" where
  "enqueueCandidates env opts [] acc = acc"
| "enqueueCandidates env opts (c # cs) (successCount, failed, w) =
     (case enqueueBead env (qc_ID c) (qc_RigName c) opts w of
        (Some err, w') \<Rightarrow>
          enqueueCandidates env opts cs (successCount, failed @ [(qc_ID c, err)], w')
      | (None, w') \<Rightarrow>
          enqueueCandidates env opts cs (Suc successCount, failed, w'))"

definition convoyEnqueueOptions :: "convoyQueueOpts \<Rightarrow> EnqueueOptions" where
  "convoyEnqueueOptions opts =
     zeroEnqueueOptions\<lparr>Formula := cq_Formula opts, NoConvoy := True, Force := cq_Force opts,
       HookRawBead := cq_HookRawBead opts\<rparr>"

definition runConvoyQueueByID ::
  "'w routerEnv \<Rightarrow> string \<Rightarrow> convoyQueueOpts \<Rightarrow> 'w \<Rightarrow> error option \<times> 'w" where
  "runConvoyQueueByID env convoyID opts w =
     (case FindFromCwdOrError env w of
        Inl err \<Rightarrow> (Some err, w)
      | Inr townRoot \<Rightarrow>
          (case verifyBeadExists env w convoyID of
             Some err \<Rightarrow> (Some (ConvoyNotFound convoyID), w)
           | None \<Rightarrow>
               (case getTrackedIssues env w (JoinPath env [townRoot, ''.beads'']) convoyID of
                  Inl err \<Rightarrow> (Some (GettingTrackedIssues err), w)
                | Inr tracked \<Rightarrow>
                    if tracked = [] then (None, w)
                    else
                      (let candidates = convoyCandidates env opts townRoot w tracked
                       in if candidates = [] then (None, w)
                          else if cq_DryRun opts then (None, w)
                          else
                            (case enqueueCandidates env (convoyEnqueueOptions opts) candidates
                                    (0, [], w) of
                               (successCount, failed, w') \<Rightarrow>
                                 (if successCount = 0
                                  then Some (AllEnqueueAttemptsFailedConvoy
                                               (length candidates) convoyID)
                                  else None, w'))))))"

text \<open>
  \<^verbatim>\<open>getEpicChildren\<close>: a failed run with nothing on stdout and stderr means no
  dependencies; a child whose lookup fails keeps the listed title and status, with no
  assignee and no labels.
\<close>

fun childrenOfDeps :: "'w routerEnv \<Rightarrow> 'w \<Rightarrow> depRow list \<Rightarrow> epicChild list" where
  "childrenOfDeps env w [] = []"
| "childrenOfDeps env w (dep # deps) =
     (case getBeadInfo env w (dep_ID dep) of
        Inl err \<Rightarrow>
          \<lparr>ec_ID = dep_ID dep, ec_Title = dep_Title dep, ec_Status = dep_Status dep,
            ec_Assignee = [], ec_Labels = []\<rparr> # childrenOfDeps env w deps
      | Inr info \<Rightarrow>
          \<lparr>ec_ID = dep_ID dep, ec_Title = info_Title info, ec_Status = info_Status info,
            ec_Assignee = info_Assignee info, ec_Labels = info_Labels info\<rparr>
            # childrenOfDeps env w deps)"

definition getEpicChildren :: "'w routerEnv \<Rightarrow> 'w \<Rightarrow> string \<Rightarrow> error + epicChild list" where
  "getEpicChildren env w epicID =
     (case bdDepList env w epicID of
        DepRunFailed err out errOut \<Rightarrow>
          if out = [] \<and> errOut = [] then Inr []
          else Inl (BdDepList epicID err (TrimSpace env errOut))
      | DepBadJSON err \<Rightarrow> Inl (ParsingDependencyList err)
      | DepRows deps \<Rightarrow> Inr (childrenOfDeps env w deps))"

fun epicCandidates ::
  "'w routerEnv \<Rightarrow> epicQueueOpts \<Rightarrow> string \<Rightarrow> 'w \<Rightarrow> epicChild list \<Rightarrow> queueCandidate list" where
  "epicCandidates env opts townRoot w [] = []"
| "epicCandidates env opts townRoot w (c # cs) =
     (if ec_Status c = ''closed'' \<or> ec_Status c = ''tombstone''
      then epicCandidates env opts townRoot w cs
      else if ec_Assignee c \<noteq> [] \<and> \<not> eq_Force opts
      then epicCandidates env opts townRoot w cs
      else if hasQueuedLabel env (ec_Labels c)
      then epicCandidates env opts townRoot w cs
      else (let rigName = resolveRigForBead env w townRoot (ec_ID c)
            in if rigName = [] then epicCandidates env opts townRoot w cs
               else \<lparr>qc_ID = ec_ID c, qc_Title = ec_Title c, qc_RigName = rigName\<rparr>
                      # epicCandidates env opts townRoot w cs))"

definition epicEnqueueOptions :: "epicQueueOpts \<Rightarrow> EnqueueOptions" where
  "epicEnqueueOptions opts =
     zeroEnqueueOptions\<lparr>Formula := eq_Formula opts, Force := eq_Force opts,
       HookRawBead := eq_HookRawBead opts\<rparr>"

definition runEpicQueueByID ::
  "'w routerEnv \<Rightarrow> string \<Rightarrow> epicQueueOpts \<Rightarrow> 'w \<Rightarrow> error option \<times> 'w" where
  "runEpicQueueByID env epicID opts w =
     (case FindFromCwdOrError env w of
        Inl err \<Rightarrow> (Some err, w)
      | Inr townRoot \<Rightarrow>
          (case verifyBeadExists env w epicID of
             Some err \<Rightarrow> (Some (EpicNotFound epicID), w)
           | None \<Rightarrow>
               (case getEpicChildren env w epicID of
                  Inl err \<Rightarrow> (Some (ListingChildren epicID err), w)
                | Inr children \<Rightarrow>
                    if children = [] then (None, w)
                    else
                      (let candidates = epicCandidates env opts townRoot w children
                       in if candidates = [] then (None, w)
                          else if eq_DryRun opts then (None, w)
                          else
                            (case enqueueCandidates env (epicEnqueueOptions opts) candidates
                                    (0, [], w) of
                               (successCount, failed, w') \<Rightarrow>
                                 (if successCount = 0
                                  then Some (AllEnqueueAttemptsFailedEpic
                                               (length candidates) epicID)
                                  else None, w'))))))"

subsection \<open>The loops attempt every item\<close>

lemma enqueueCandidates_count:
  "enqueueCandidates env opts cs (n, failed, w) = (n', failed', w') \<Longrightarrow>
     n' + length failed' = n + length failed + length cs"
proof (induction cs arbitrary: n failed w)
  case Nil then show ?case by simp
next
  case (Cons c cs)
  obtain r w1 where e: "enqueueBead env (qc_ID c) (qc_RigName c) opts w = (r, w1)"
    by (cases "enqueueBead env (qc_ID c) (qc_RigName c) opts w")
  show ?case
  proof (cases r)
    case None
    with Cons.prems e have "enqueueCandidates env opts cs (Suc n, failed, w1) = (n', failed', w')"
      by simp
    from Cons.IH [OF this] show ?thesis by simp
  next
    case (Some err)
    with Cons.prems e
    have "enqueueCandidates env opts cs (n, failed @ [(qc_ID c, err)], w1) = (n', failed', w')"
      by simp
    from Cons.IH [OF this] show ?thesis by simp
  qed
qed

lemma enqueueCandidates_append:
  "enqueueCandidates env opts (xs @ ys) acc =
     enqueueCandidates env opts ys (enqueueCandidates env opts xs acc)"
proof (induction xs arbitrary: acc)
  case Nil then show ?case by simp
next
  case (Cons c cs)
  obtain n failed w where acc: "acc = (n, failed, w)" by (cases acc)
  show ?case unfolding acc
    by (cases "enqueueBead env (qc_ID c) (qc_RigName c) opts w")
      (auto simp: Cons.IH split: option.splits)
qed

lemma enqueueTaskBeads_count:
  "enqueueTaskBeads env opts townRoot explicitRig ids (n, failed, w) = (n', failed', w') \<Longrightarrow>
     n' + length failed' = n + length failed + length ids"
proof (induction ids arbitrary: n failed w)
  case Nil then show ?case by simp
next
  case (Cons b bs)
  define rigName where
    "rigName = (if explicitRig = [] then resolveRigForBead env w townRoot b else explicitRig)"
  show ?case
  proof (cases "rigName = []")
    case True
    with Cons.prems have "enqueueTaskBeads env opts townRoot explicitRig bs
        (n, failed @ [(b, CannotResolveRig b)], w) = (n', failed', w')"
      by (simp add: rigName_def Let_def split: if_splits)
    from Cons.IH [OF this] show ?thesis by simp
  next
    case False
    obtain r w1 where e: "enqueueBead env b rigName opts w = (r, w1)"
      by (cases "enqueueBead env b rigName opts w")
    show ?thesis
    proof (cases r)
      case None
      with Cons.prems e False
      have "enqueueTaskBeads env opts townRoot explicitRig bs (Suc n, failed, w1) = (n', failed', w')"
        by (simp add: rigName_def Let_def split: if_splits)
      from Cons.IH [OF this] show ?thesis by simp
    next
      case (Some err)
      with Cons.prems e False
      have "enqueueTaskBeads env opts townRoot explicitRig bs (n, failed @ [(b, err)], w1)
          = (n', failed', w')"
        by (simp add: rigName_def Let_def split: if_splits)
      from Cons.IH [OF this] show ?thesis by simp
    qed
  qed
qed

lemma validateBatch_ignores_enqueue:
  "validateBatch (env\<lparr>enqueueBead := f\<rparr>) w ids = validateBatch env w ids"
  by (induction ids) (auto split: sum.splits)

lemma splitTrailingRig_ignores_enqueue:
  "splitTrailingRig (env\<lparr>enqueueBead := f\<rparr>) w args = splitTrailingRig env w args"
  by (simp add: splitTrailingRig_def)

lemma validateBatch_rejects:
  "ident \<in> set ids \<Longrightarrow> detectQueueIDType (getBeadInfo env) w ident \<noteq> Inr ''task'' \<Longrightarrow>
     \<exists>err. validateBatch env w ids = Some err"
proof (induction ids)
  case Nil then show ?case by simp
next
  case (Cons b bs)
  show ?case
  proof (cases "detectQueueIDType (getBeadInfo env) w b")
    case (Inl e) then show ?thesis by simp
  next
    case (Inr t)
    show ?thesis
    proof (cases "t = ''task''")
      case True
      with Inr Cons have "ident \<in> set bs" by auto
      with Cons True Inr show ?thesis by simp
    next
      case False with Inr show ?thesis by simp
    qed
  qed
qed

text \<open>
  Claim C10. In a batch of two or more bead arguments, when some identifier after the
  first is classified as a convoy or an epic, or its lookup fails, the command returns an
  error and the world it was given, whatever \<^verbatim>\<open>enqueueBead\<close> would do: no item is
  enqueued.
\<close>

theorem task_batch_validated_before_enqueue:
  assumes "splitTrailingRig env w args = (explicitRig, beadArgs)"
    and "length beadArgs \<ge> 2"
    and "ident \<in> set (tl beadArgs)"
    and "detectQueueIDType (getBeadInfo env) w ident = Inr ''convoy''
         \<or> detectQueueIDType (getBeadInfo env) w ident = Inr ''epic''
         \<or> (\<exists>e. detectQueueIDType (getBeadInfo env) w ident = Inl e)"
  shows "\<exists>err. runTaskQueueEnqueue (env\<lparr>enqueueBead := anyEnqueue\<rparr>) flags args w = (Some err, w)"
proof -
  obtain first second others where ba: "beadArgs = first # second # others"
    using assms(2) by (cases beadArgs; cases "tl beadArgs") auto
  have nt: "detectQueueIDType (getBeadInfo env) w ident \<noteq> Inr ''task''"
    using assms(4) by auto
  from assms(3) have "ident \<in> set (second # others)" by (simp add: ba)
  from validateBatch_rejects [OF this nt]
  obtain err where v: "validateBatch env w (second # others) = Some err" by blast
  have split: "splitTrailingRig (env\<lparr>enqueueBead := anyEnqueue\<rparr>) w args = (explicitRig, beadArgs)"
    using assms(1) by (simp only: splitTrailingRig_ignores_enqueue)
  show ?thesis
  proof (cases "FindFromCwdOrError env w")
    case (Inl e)
    then show ?thesis by (simp add: runTaskQueueEnqueue_def)
  next
    case (Inr townRoot)
    have "validateBatch (env\<lparr>enqueueBead := anyEnqueue\<rparr>) w (second # others) = Some err"
      using v by (simp only: validateBatch_ignores_enqueue)
    then show ?thesis using Inr split ba
      by (simp add: runTaskQueueEnqueue_def Let_def del: validateBatch.simps)
  qed
qed


subsection \<open>What the loops count\<close>

text \<open>
  The attempts of the enqueue loop of the convoy and the epic command, in the order the
  loop makes them: the identifier of each candidate with what \<^verbatim>\<open>enqueueBead\<close> returned
  for it (\<open>None\<close> for \<^verbatim>\<open>nil\<close>), and the world after the last call. Each call starts from
  the world the previous call left. This is the record against which the loop's counter
  and the command's result are stated.
\<close>

fun enqueueCalls ::
  "'w routerEnv \<Rightarrow> EnqueueOptions \<Rightarrow> queueCandidate list \<Rightarrow> 'w \<Rightarrow>
   (string \<times> error option) list \<times> 'w" where
  "enqueueCalls env opts [] w = ([], w)"
| "enqueueCalls env opts (c # cs) w =
     (case enqueueBead env (qc_ID c) (qc_RigName c) opts w of
        (r, w1) \<Rightarrow>
          (case enqueueCalls env opts cs w1 of
             (rs, w2) \<Rightarrow> ((qc_ID c, r) # rs, w2)))"

text \<open>
  The attempts of the task batch: a bead whose rig cannot be resolved fails without a
  call to \<^verbatim>\<open>enqueueBead\<close>; every other bead is one call.
\<close>

fun taskCalls ::
  "'w routerEnv \<Rightarrow> EnqueueOptions \<Rightarrow> string \<Rightarrow> string \<Rightarrow> string list \<Rightarrow> 'w \<Rightarrow>
   (string \<times> error option) list \<times> 'w" where
  "taskCalls env opts townRoot explicitRig [] w = ([], w)"
| "taskCalls env opts townRoot explicitRig (beadID # rest) w =
     (let rigName = (if explicitRig = [] then resolveRigForBead env w townRoot beadID
                     else explicitRig)
      in if rigName = [] then
           (case taskCalls env opts townRoot explicitRig rest w of
              (rs, w2) \<Rightarrow> ((beadID, Some (CannotResolveRig beadID)) # rs, w2))
         else
           (case enqueueBead env beadID rigName opts w of
              (r, w1) \<Rightarrow>
                (case taskCalls env opts townRoot explicitRig rest w1 of
                   (rs, w2) \<Rightarrow> ((beadID, r) # rs, w2))))"

text \<open>The attempts that returned no error, and the failed ones with their errors.\<close>

fun successes :: "(string \<times> error option) list \<Rightarrow> string list" where
  "successes [] = []"
| "successes ((ident, r) # outs) =
     (case r of None \<Rightarrow> ident # successes outs | Some err \<Rightarrow> successes outs)"

fun failures :: "(string \<times> error option) list \<Rightarrow> (string \<times> error) list" where
  "failures [] = []"
| "failures ((ident, r) # outs) =
     (case r of None \<Rightarrow> failures outs | Some err \<Rightarrow> (ident, err) # failures outs)"

lemma successes_empty_iff: "successes outs = [] \<longleftrightarrow> None \<notin> snd ` set outs"
  by (induction outs rule: successes.induct) (auto split: option.splits)

lemma successes_failures_length:
  "length (successes outs) + length (failures outs) = length outs"
  by (induction outs rule: successes.induct) (auto split: option.splits)

lemma enqueueCalls_ids:
  "enqueueCalls env opts cs w = (outs, w') \<Longrightarrow> map fst outs = map qc_ID cs"
proof (induction cs arbitrary: w outs w')
  case Nil then show ?case by simp
next
  case (Cons c cs)
  obtain r w1 where e: "enqueueBead env (qc_ID c) (qc_RigName c) opts w = (r, w1)"
    by (cases "enqueueBead env (qc_ID c) (qc_RigName c) opts w")
  obtain rs w2 where t: "enqueueCalls env opts cs w1 = (rs, w2)"
    by (cases "enqueueCalls env opts cs w1")
  from Cons.prems e t have "outs = (qc_ID c, r) # rs" by simp
  with Cons.IH [OF t] show ?case by simp
qed

lemma enqueueCandidates_calls:
  "enqueueCalls env opts cs w = (outs, w') \<Longrightarrow>
     enqueueCandidates env opts cs (n, failed, w)
       = (n + length (successes outs), failed @ failures outs, w')"
proof (induction cs arbitrary: n failed w outs w')
  case Nil then show ?case by simp
next
  case (Cons c cs)
  obtain r w1 where e: "enqueueBead env (qc_ID c) (qc_RigName c) opts w = (r, w1)"
    by (cases "enqueueBead env (qc_ID c) (qc_RigName c) opts w")
  obtain rs w2 where t: "enqueueCalls env opts cs w1 = (rs, w2)"
    by (cases "enqueueCalls env opts cs w1")
  from Cons.prems e t have outs: "outs = (qc_ID c, r) # rs" and w': "w' = w2" by simp_all
  show ?case
  proof (cases r)
    case None
    with e Cons.IH [OF t, of "Suc n" failed] show ?thesis by (simp add: outs w')
  next
    case (Some err)
    with e Cons.IH [OF t, of n "failed @ [(qc_ID c, err)]"] show ?thesis by (simp add: outs w')
  qed
qed

lemma taskCalls_ids:
  "taskCalls env opts townRoot explicitRig ids w = (outs, w') \<Longrightarrow> map fst outs = ids"
proof (induction ids arbitrary: w outs w')
  case Nil then show ?case by simp
next
  case (Cons b bs)
  define rigName where
    "rigName = (if explicitRig = [] then resolveRigForBead env w townRoot b else explicitRig)"
  show ?case
  proof (cases "rigName = []")
    case True
    obtain rs w2 where t: "taskCalls env opts townRoot explicitRig bs w = (rs, w2)"
      by (cases "taskCalls env opts townRoot explicitRig bs w")
    from Cons.prems True t have "outs = (b, Some (CannotResolveRig b)) # rs"
      by (simp add: rigName_def Let_def split: if_splits)
    with Cons.IH [OF t] show ?thesis by simp
  next
    case False
    obtain r w1 where e: "enqueueBead env b rigName opts w = (r, w1)"
      by (cases "enqueueBead env b rigName opts w")
    obtain rs w2 where t: "taskCalls env opts townRoot explicitRig bs w1 = (rs, w2)"
      by (cases "taskCalls env opts townRoot explicitRig bs w1")
    from Cons.prems False e t have "outs = (b, r) # rs"
      by (simp add: rigName_def Let_def split: if_splits)
    with Cons.IH [OF t] show ?thesis by simp
  qed
qed

lemma enqueueTaskBeads_calls:
  "taskCalls env opts townRoot explicitRig ids w = (outs, w') \<Longrightarrow>
     enqueueTaskBeads env opts townRoot explicitRig ids (n, failed, w)
       = (n + length (successes outs), failed @ failures outs, w')"
proof (induction ids arbitrary: n failed w outs w')
  case Nil then show ?case by simp
next
  case (Cons b bs)
  define rigName where
    "rigName = (if explicitRig = [] then resolveRigForBead env w townRoot b else explicitRig)"
  show ?case
  proof (cases "rigName = []")
    case True
    obtain rs w2 where t: "taskCalls env opts townRoot explicitRig bs w = (rs, w2)"
      by (cases "taskCalls env opts townRoot explicitRig bs w")
    from Cons.prems True t have outs: "outs = (b, Some (CannotResolveRig b)) # rs"
      and w': "w' = w2"
      by (simp_all add: rigName_def Let_def split: if_splits)
    from True Cons.IH [OF t, of n "failed @ [(b, CannotResolveRig b)]"] show ?thesis
      by (simp add: outs w' rigName_def Let_def split: if_splits)
  next
    case False
    obtain r w1 where e: "enqueueBead env b rigName opts w = (r, w1)"
      by (cases "enqueueBead env b rigName opts w")
    obtain rs w2 where t: "taskCalls env opts townRoot explicitRig bs w1 = (rs, w2)"
      by (cases "taskCalls env opts townRoot explicitRig bs w1")
    from Cons.prems False e t have outs: "outs = (b, r) # rs" and w': "w' = w2"
      by (simp_all add: rigName_def Let_def split: if_splits)
    show ?thesis
    proof (cases r)
      case None
      with False e Cons.IH [OF t, of "Suc n" failed] show ?thesis
        by (simp add: outs w' rigName_def Let_def split: if_splits)
    next
      case (Some err)
      with False e Cons.IH [OF t, of n "failed @ [(b, err)]"] show ?thesis
        by (simp add: outs w' rigName_def Let_def split: if_splits)
    qed
  qed
qed

text \<open>
  Claim C4, as amended. Once at least one candidate has passed the filters and the run is
  not a dry run (which returns before the loop), the convoy and the epic command attempt
  every candidate in order, whatever the earlier attempts returned: a failure does not
  end the loop. The loop's counter is the number of \<^verbatim>\<open>enqueueBead\<close> calls that returned
  no error, the printed failures are the calls that returned one, and the command returns
  an error exactly when no call returned success; the world it returns is the one the
  last call left. The same holds for a task batch of two or more beads that has passed
  the type validation, where a bead whose rig cannot be resolved counts as a failed
  attempt.
\<close>

theorem batch_error_iff_no_success:
  "(FindFromCwdOrError env w = Inr townRoot \<and> verifyBeadExists env w convoyID = None
      \<and> getTrackedIssues env w (JoinPath env [townRoot, ''.beads'']) convoyID = Inr tracked
      \<and> convoyCandidates env copts townRoot w tracked = ccands \<and> ccands \<noteq> []
      \<and> \<not> cq_DryRun copts
      \<and> enqueueCalls env (convoyEnqueueOptions copts) ccands w = (couts, cw)
    \<longrightarrow> map fst couts = map qc_ID ccands
        \<and> enqueueCandidates env (convoyEnqueueOptions copts) ccands (0, [], w)
            = (length (successes couts), failures couts, cw)
        \<and> runConvoyQueueByID env convoyID copts w =
            (if successes couts = []
             then Some (AllEnqueueAttemptsFailedConvoy (length ccands) convoyID)
             else None, cw)
        \<and> (fst (runConvoyQueueByID env convoyID copts w) = None
             \<longleftrightarrow> None \<in> snd ` set couts))
   \<and> (FindFromCwdOrError env w = Inr townRoot \<and> verifyBeadExists env w epicID = None
      \<and> getEpicChildren env w epicID = Inr children
      \<and> epicCandidates env eopts townRoot w children = ecands \<and> ecands \<noteq> []
      \<and> \<not> eq_DryRun eopts
      \<and> enqueueCalls env (epicEnqueueOptions eopts) ecands w = (eouts, ew)
    \<longrightarrow> map fst eouts = map qc_ID ecands
        \<and> enqueueCandidates env (epicEnqueueOptions eopts) ecands (0, [], w)
            = (length (successes eouts), failures eouts, ew)
        \<and> runEpicQueueByID env epicID eopts w =
            (if successes eouts = []
             then Some (AllEnqueueAttemptsFailedEpic (length ecands) epicID)
             else None, ew)
        \<and> (fst (runEpicQueueByID env epicID eopts w) = None
             \<longleftrightarrow> None \<in> snd ` set eouts))
   \<and> (FindFromCwdOrError env w = Inr townRoot
      \<and> splitTrailingRig env w args = (explicitRig, beadArgs) \<and> length beadArgs \<ge> 2
      \<and> validateBatch env w (tl beadArgs) = None
      \<and> taskEnqueueOptions flags
            (resolveFormula env (queueFormula flags) (queueHookRawBead flags)) = topts
      \<and> taskCalls env topts townRoot explicitRig beadArgs w = (touts, tw)
    \<longrightarrow> map fst touts = beadArgs
        \<and> enqueueTaskBeads env topts townRoot explicitRig beadArgs (0, [], w)
            = (length (successes touts), failures touts, tw)
        \<and> runTaskQueueEnqueue env flags args w =
            (if successes touts = []
             then Some (AllEnqueueAttemptsFailed (length beadArgs)) else None, tw)
        \<and> (fst (runTaskQueueEnqueue env flags args w) = None
             \<longleftrightarrow> None \<in> snd ` set touts))"
proof (intro conjI impI)
  assume a: "FindFromCwdOrError env w = Inr townRoot \<and> verifyBeadExists env w convoyID = None
      \<and> getTrackedIssues env w (JoinPath env [townRoot, ''.beads'']) convoyID = Inr tracked
      \<and> convoyCandidates env copts townRoot w tracked = ccands \<and> ccands \<noteq> []
      \<and> \<not> cq_DryRun copts
      \<and> enqueueCalls env (convoyEnqueueOptions copts) ccands w = (couts, cw)"
  then have calls: "enqueueCalls env (convoyEnqueueOptions copts) ccands w = (couts, cw)"
    by simp
  from a have ne: "tracked \<noteq> []" by auto
  from enqueueCalls_ids [OF calls] show "map fst couts = map qc_ID ccands" .
  from enqueueCandidates_calls [OF calls, of 0 "[]"]
  show loop: "enqueueCandidates env (convoyEnqueueOptions copts) ccands (0, [], w)
            = (length (successes couts), failures couts, cw)"
    by simp
  from a ne loop show r: "runConvoyQueueByID env convoyID copts w =
            (if successes couts = []
             then Some (AllEnqueueAttemptsFailedConvoy (length ccands) convoyID)
             else None, cw)"
    by (simp add: runConvoyQueueByID_def Let_def del: enqueueCandidates.simps)
  show "fst (runConvoyQueueByID env convoyID copts w) = None \<longleftrightarrow> None \<in> snd ` set couts"
    unfolding r using successes_empty_iff [of couts] by simp
next
  assume a: "FindFromCwdOrError env w = Inr townRoot \<and> verifyBeadExists env w epicID = None
      \<and> getEpicChildren env w epicID = Inr children
      \<and> epicCandidates env eopts townRoot w children = ecands \<and> ecands \<noteq> []
      \<and> \<not> eq_DryRun eopts
      \<and> enqueueCalls env (epicEnqueueOptions eopts) ecands w = (eouts, ew)"
  then have calls: "enqueueCalls env (epicEnqueueOptions eopts) ecands w = (eouts, ew)"
    by simp
  from a have ne: "children \<noteq> []" by auto
  from enqueueCalls_ids [OF calls] show "map fst eouts = map qc_ID ecands" .
  from enqueueCandidates_calls [OF calls, of 0 "[]"]
  show loop: "enqueueCandidates env (epicEnqueueOptions eopts) ecands (0, [], w)
            = (length (successes eouts), failures eouts, ew)"
    by simp
  from a ne loop show r: "runEpicQueueByID env epicID eopts w =
            (if successes eouts = []
             then Some (AllEnqueueAttemptsFailedEpic (length ecands) epicID)
             else None, ew)"
    by (simp add: runEpicQueueByID_def Let_def del: enqueueCandidates.simps)
  show "fst (runEpicQueueByID env epicID eopts w) = None \<longleftrightarrow> None \<in> snd ` set eouts"
    unfolding r using successes_empty_iff [of eouts] by simp
next
  assume a: "FindFromCwdOrError env w = Inr townRoot
      \<and> splitTrailingRig env w args = (explicitRig, beadArgs) \<and> length beadArgs \<ge> 2
      \<and> validateBatch env w (tl beadArgs) = None
      \<and> taskEnqueueOptions flags
            (resolveFormula env (queueFormula flags) (queueHookRawBead flags)) = topts
      \<and> taskCalls env topts townRoot explicitRig beadArgs w = (touts, tw)"
  then have calls: "taskCalls env topts townRoot explicitRig beadArgs w = (touts, tw)"
    by simp
  from a obtain first second others where ba: "beadArgs = first # second # others"
    by (cases beadArgs; cases "tl beadArgs") auto
  from taskCalls_ids [OF calls] show "map fst touts = beadArgs" .
  from enqueueTaskBeads_calls [OF calls, of 0 "[]"]
  show loop: "enqueueTaskBeads env topts townRoot explicitRig beadArgs (0, [], w)
            = (length (successes touts), failures touts, tw)"
    by simp
  from a loop show r: "runTaskQueueEnqueue env flags args w =
            (if successes touts = []
             then Some (AllEnqueueAttemptsFailed (length beadArgs)) else None, tw)"
    unfolding ba
    by (auto simp add: runTaskQueueEnqueue_def Let_def
        simp del: validateBatch.simps enqueueTaskBeads.simps)
  show "fst (runTaskQueueEnqueue env flags args w) = None \<longleftrightarrow> None \<in> snd ` set touts"
    unfolding r using successes_empty_iff [of touts] by simp
qed

subsection \<open>Concrete runs of the batch commands\<close>

text \<open>
  A concrete router environment over the demo store: \<^verbatim>\<open>enqueueBead\<close> adds the queued
  label to an existing bead that is not hooked, and fails otherwise.
\<close>

definition demoEnqueueBead ::
  "string \<Rightarrow> string \<Rightarrow> EnqueueOptions \<Rightarrow> (string \<times> beadInfo) list \<Rightarrow>
   error option \<times> (string \<times> beadInfo) list" where
  "demoEnqueueBead beadID rigName opts w =
     (case map_of w beadID of
        None \<Rightarrow> (Some (ExecError ''bead not found''), w)
      | Some info \<Rightarrow>
          if info_Status info = ''hooked'' \<and> \<not> Force opts
          then (Some (ExecError ''bead is hooked''), w)
          else (None, map (\<lambda>(k, v). if k = beadID
                                      then (k, v\<lparr>info_Labels := LabelQueued # info_Labels v\<rparr>)
                                      else (k, v)) w))"

definition demoRouterEnv :: "((string \<times> beadInfo) list) routerEnv" where
  "demoRouterEnv =
     \<lparr>FindFromCwdOrError = (\<lambda>w. Inr ''/town''),
      getBeadInfo = demoGetBeadInfo,
      verifyBeadExists = (\<lambda>w i. if i = ''hq-cv-1'' \<or> i = ''gt-e1'' then None
                                 else Some (ExecError ''not found'')),
      getTrackedIssues = (\<lambda>w dir i.
         Inr [\<lparr>ti_ID = ''gt-h1'', ti_Title = ''Hooked'', ti_Status = ''hooked'', ti_Assignee = []\<rparr>,
              \<lparr>ti_ID = ''gt-t1'', ti_Title = ''Task one'', ti_Status = ''open'', ti_Assignee = []\<rparr>,
              \<lparr>ti_ID = ''gt-t2'', ti_Title = ''Task two'', ti_Status = ''open'', ti_Assignee = []\<rparr>]),
      bdDepList = (\<lambda>w i.
         DepRows [\<lparr>dep_ID = ''gt-h1'', dep_Title = ''Hooked'', dep_Status = ''hooked''\<rparr>,
                  \<lparr>dep_ID = ''gt-t2'', dep_Title = ''Task two'', dep_Status = ''open''\<rparr>]),
      resolveRigForBead = (\<lambda>w root i. if prefix ''gt-'' i then ''gastown'' else []),
      IsRigName = (\<lambda>w a. if a = ''gastown'' then (''gastown'', True) else ([], False)),
      resolveFormula = (\<lambda>f raw. if raw then [] else if f = [] then ''mol-polecat-work'' else f),
      hasQueuedLabel = (\<lambda>ls. LabelQueued \<in> set ls),
      JoinPath = joinSlash,
      TrimSpace = (\<lambda>s. rev (dropWhile (\<lambda>c. c = CHR '' '' \<or> c = CHR 0x0A) (rev
                     (dropWhile (\<lambda>c. c = CHR '' '' \<or> c = CHR 0x0A) s)))),
      enqueueBead = demoEnqueueBead\<rparr>"

definition demoFlags :: queueFlags where
  "demoFlags =
     \<lparr>queueOnTarget = [], queueFormula = [], queueHookRawBead = False, queueArgs = [],
      queueVars = [], queueMerge = [], queueBaseBranch = [], queueNoConvoy = False,
      queueOwned = False, queueNoMerge = False, queueForce = False, queueDryRun = False,
      queueAccount = [], queueAgent = [], queueRalph = False\<rparr>"

definition demoBeadsQueued :: "(string \<times> beadInfo) list" where
  "demoBeadsQueued =
     map (\<lambda>(k, v). if k = ''gt-t2'' then (k, v\<lparr>info_Labels := LabelQueued # info_Labels v\<rparr>)
                    else (k, v)) demoBeads"

definition demoGroupOpts :: convoyQueueOpts where
  "demoGroupOpts = \<lparr>cq_Formula = ''mol-polecat-work'', cq_HookRawBead = False, cq_Force = False,
     cq_DryRun = False\<rparr>"

definition demoEpicOpts :: epicQueueOpts where
  "demoEpicOpts = \<lparr>eq_Formula = ''mol-polecat-work'', eq_HookRawBead = False, eq_Force = False,
     eq_DryRun = False\<rparr>"

lemmas demo_router_defs =
  demoRouterEnv_def demoEnqueueBead_def demoGetBeadInfo_def demoBeads_def demoFlags_def
  demoBeadsQueued_def demoGroupOpts_def demoEpicOpts_def LabelQueued_def

lemma demo_convoy_cands:
  "convoyCandidates demoRouterEnv demoGroupOpts ''/town'' demoBeads
     [\<lparr>ti_ID = ''gt-h1'', ti_Title = ''Hooked'', ti_Status = ''hooked'', ti_Assignee = []\<rparr>,
      \<lparr>ti_ID = ''gt-t1'', ti_Title = ''Task one'', ti_Status = ''open'', ti_Assignee = []\<rparr>,
      \<lparr>ti_ID = ''gt-t2'', ti_Title = ''Task two'', ti_Status = ''open'', ti_Assignee = []\<rparr>]
   = [\<lparr>qc_ID = ''gt-h1'', qc_Title = ''Hooked'', qc_RigName = ''gastown''\<rparr>,
      \<lparr>qc_ID = ''gt-t2'', qc_Title = ''Task two'', qc_RigName = ''gastown''\<rparr>]"
  by (simp add: demo_router_defs Let_def)

lemma demo_enqueue_cands:
  "enqueueCandidates demoRouterEnv opts
     [\<lparr>qc_ID = ''gt-h1'', qc_Title = ''Hooked'', qc_RigName = ''gastown''\<rparr>,
      \<lparr>qc_ID = ''gt-t2'', qc_Title = ''Task two'', qc_RigName = ''gastown''\<rparr>] (0, [], demoBeads)
   = (if Force opts then (2, [], map (\<lambda>(k, v). if k = ''gt-t2'' \<or> k = ''gt-h1'' then (k, v\<lparr>info_Labels := LabelQueued # info_Labels v\<rparr>)
                    else (k, v)) demoBeads) else (1, [(''gt-h1'', ExecError ''bead is hooked'')], demoBeadsQueued))"
  by (simp add: demo_router_defs)


lemma demo_children:
  "getEpicChildren demoRouterEnv demoBeads ''gt-e1'' =
     Inr [\<lparr>ec_ID = ''gt-h1'', ec_Title = ''Hooked'', ec_Status = ''hooked'', ec_Assignee = [],
            ec_Labels = []\<rparr>,
          \<lparr>ec_ID = ''gt-t2'', ec_Title = ''Task two'', ec_Status = ''open'', ec_Assignee = [],
            ec_Labels = []\<rparr>]"
  by (simp add: getEpicChildren_def demo_router_defs)

lemma demo_epic_cands:
  "epicCandidates demoRouterEnv demoEpicOpts ''/town'' demoBeads
     [\<lparr>ec_ID = ''gt-h1'', ec_Title = ''Hooked'', ec_Status = ''hooked'', ec_Assignee = [],
        ec_Labels = []\<rparr>,
      \<lparr>ec_ID = ''gt-t2'', ec_Title = ''Task two'', ec_Status = ''open'', ec_Assignee = [],
        ec_Labels = []\<rparr>]
   = [\<lparr>qc_ID = ''gt-h1'', qc_Title = ''Hooked'', qc_RigName = ''gastown''\<rparr>,
      \<lparr>qc_ID = ''gt-t2'', qc_Title = ''Task two'', qc_RigName = ''gastown''\<rparr>]"
  by (simp add: demo_router_defs Let_def)

lemma demo_split:
  "splitTrailingRig demoRouterEnv demoBeads [''gt-h1'', ''gt-t2'', ''gastown'']
     = (''gastown'', [''gt-h1'', ''gt-t2''])"
  by (simp add: splitTrailingRig_def demoRouterEnv_def)

lemma demo_validate:
  "validateBatch demoRouterEnv demoBeads [''gt-t2''] = None"
  by (simp add: detectQueueIDType_def demo_router_defs)

lemma demo_task_loop:
  "enqueueTaskBeads demoRouterEnv
     (taskEnqueueOptions demoFlags
        (resolveFormula demoRouterEnv (queueFormula demoFlags) (queueHookRawBead demoFlags)))
     ''/town'' ''gastown'' [''gt-h1'', ''gt-t2''] (0, [], demoBeads)
   = (1, [(''gt-h1'', ExecError ''bead is hooked'')], demoBeadsQueued)"
  by (simp add: taskEnqueueOptions_def demo_router_defs Let_def)

lemma demo_enqueue_calls:
  "\<not> Force opts \<Longrightarrow>
   enqueueCalls demoRouterEnv opts
     [\<lparr>qc_ID = ''gt-h1'', qc_Title = ''Hooked'', qc_RigName = ''gastown''\<rparr>,
      \<lparr>qc_ID = ''gt-t2'', qc_Title = ''Task two'', qc_RigName = ''gastown''\<rparr>] demoBeads
   = ([(''gt-h1'', Some (ExecError ''bead is hooked'')), (''gt-t2'', None)], demoBeadsQueued)"
  by (simp add: demo_router_defs)

lemma demo_task_calls:
  "taskCalls demoRouterEnv
     (taskEnqueueOptions demoFlags
        (resolveFormula demoRouterEnv (queueFormula demoFlags) (queueHookRawBead demoFlags)))
     ''/town'' ''gastown'' [''gt-h1'', ''gt-t2''] demoBeads
   = ([(''gt-h1'', Some (ExecError ''bead is hooked'')), (''gt-t2'', None)], demoBeadsQueued)"
  by (simp add: taskEnqueueOptions_def demo_router_defs Let_def)

lemma demo_split_hooked:
  "splitTrailingRig demoRouterEnv demoBeads [''gt-h1'', ''gt-h1'', ''gastown'']
     = (''gastown'', [''gt-h1'', ''gt-h1''])"
  by (simp add: splitTrailingRig_def demoRouterEnv_def)

lemma demo_validate_hooked:
  "validateBatch demoRouterEnv demoBeads [''gt-h1''] = None"
  by (simp add: detectQueueIDType_def demo_router_defs)

lemma demo_task_calls_hooked:
  "taskCalls demoRouterEnv
     (taskEnqueueOptions demoFlags
        (resolveFormula demoRouterEnv (queueFormula demoFlags) (queueHookRawBead demoFlags)))
     ''/town'' ''gastown'' [''gt-h1'', ''gt-h1''] demoBeads
   = ([(''gt-h1'', Some (ExecError ''bead is hooked'')),
       (''gt-h1'', Some (ExecError ''bead is hooked''))], demoBeads)"
  by (simp add: taskEnqueueOptions_def demo_router_defs Let_def)

theorem batch_error_iff_no_success_witness:
  "runConvoyQueueByID demoRouterEnv ''hq-cv-1'' demoGroupOpts demoBeads = (None, demoBeadsQueued)
   \<and> runEpicQueueByID demoRouterEnv ''gt-e1'' demoEpicOpts demoBeads = (None, demoBeadsQueued)
   \<and> runTaskQueueEnqueue demoRouterEnv demoFlags [''gt-h1'', ''gt-t2'', ''gastown''] demoBeads
       = (None, demoBeadsQueued)
   \<and> runTaskQueueEnqueue demoRouterEnv demoFlags [''gt-h1'', ''gt-h1'', ''gastown''] demoBeads
       = (Some (AllEnqueueAttemptsFailed 2), demoBeads)"
proof -
  have env: "FindFromCwdOrError demoRouterEnv demoBeads = Inr ''/town''"
    "verifyBeadExists demoRouterEnv demoBeads ''hq-cv-1'' = None"
    "verifyBeadExists demoRouterEnv demoBeads ''gt-e1'' = None"
    "getTrackedIssues demoRouterEnv demoBeads (JoinPath demoRouterEnv [''/town'', ''.beads''])
       ''hq-cv-1'' =
     Inr [\<lparr>ti_ID = ''gt-h1'', ti_Title = ''Hooked'', ti_Status = ''hooked'', ti_Assignee = []\<rparr>,
          \<lparr>ti_ID = ''gt-t1'', ti_Title = ''Task one'', ti_Status = ''open'', ti_Assignee = []\<rparr>,
          \<lparr>ti_ID = ''gt-t2'', ti_Title = ''Task two'', ti_Status = ''open'', ti_Assignee = []\<rparr>]"
    "\<not> cq_DryRun demoGroupOpts" "\<not> eq_DryRun demoEpicOpts"
    "\<not> Force (convoyEnqueueOptions demoGroupOpts)"
    "\<not> Force (epicEnqueueOptions demoEpicOpts)"
    by (simp_all add: demoRouterEnv_def demoGroupOpts_def demoEpicOpts_def convoyEnqueueOptions_def
        epicEnqueueOptions_def zeroEnqueueOptions_def)
  note mixed = batch_error_iff_no_success [where env = demoRouterEnv and w = demoBeads
        and townRoot = "''/town''" and convoyID = "''hq-cv-1''" and copts = demoGroupOpts
        and tracked = "[\<lparr>ti_ID = ''gt-h1'', ti_Title = ''Hooked'', ti_Status = ''hooked'', ti_Assignee = []\<rparr>,
          \<lparr>ti_ID = ''gt-t1'', ti_Title = ''Task one'', ti_Status = ''open'', ti_Assignee = []\<rparr>,
          \<lparr>ti_ID = ''gt-t2'', ti_Title = ''Task two'', ti_Status = ''open'', ti_Assignee = []\<rparr>]"
        and ccands = "[\<lparr>qc_ID = ''gt-h1'', qc_Title = ''Hooked'', qc_RigName = ''gastown''\<rparr>,
          \<lparr>qc_ID = ''gt-t2'', qc_Title = ''Task two'', qc_RigName = ''gastown''\<rparr>]"
        and couts = "[(''gt-h1'', Some (ExecError ''bead is hooked'')), (''gt-t2'', None)]"
        and cw = demoBeadsQueued and epicID = "''gt-e1''" and eopts = demoEpicOpts
        and children = "[\<lparr>ec_ID = ''gt-h1'', ec_Title = ''Hooked'', ec_Status = ''hooked'',
              ec_Assignee = [], ec_Labels = []\<rparr>,
            \<lparr>ec_ID = ''gt-t2'', ec_Title = ''Task two'', ec_Status = ''open'', ec_Assignee = [],
              ec_Labels = []\<rparr>]"
        and ecands = "[\<lparr>qc_ID = ''gt-h1'', qc_Title = ''Hooked'', qc_RigName = ''gastown''\<rparr>,
          \<lparr>qc_ID = ''gt-t2'', qc_Title = ''Task two'', qc_RigName = ''gastown''\<rparr>]"
        and eouts = "[(''gt-h1'', Some (ExecError ''bead is hooked'')), (''gt-t2'', None)]"
        and ew = demoBeadsQueued
        and args = "[''gt-h1'', ''gt-t2'', ''gastown'']" and explicitRig = "''gastown''"
        and beadArgs = "[''gt-h1'', ''gt-t2'']" and flags = demoFlags
        and topts = "taskEnqueueOptions demoFlags
           (resolveFormula demoRouterEnv (queueFormula demoFlags) (queueHookRawBead demoFlags))"
        and touts = "[(''gt-h1'', Some (ExecError ''bead is hooked'')), (''gt-t2'', None)]"
        and tw = demoBeadsQueued]
  have some: "runConvoyQueueByID demoRouterEnv ''hq-cv-1'' demoGroupOpts demoBeads
        = (None, demoBeadsQueued)
      \<and> runEpicQueueByID demoRouterEnv ''gt-e1'' demoEpicOpts demoBeads = (None, demoBeadsQueued)
      \<and> runTaskQueueEnqueue demoRouterEnv demoFlags [''gt-h1'', ''gt-t2'', ''gastown''] demoBeads
        = (None, demoBeadsQueued)"
    using mixed
    by (simp add: env demo_convoy_cands demo_enqueue_calls demo_children demo_epic_cands
        demo_split demo_validate demo_task_calls del: enqueueCandidates.simps
        convoyCandidates.simps epicCandidates.simps validateBatch.simps enqueueTaskBeads.simps
        enqueueCalls.simps taskCalls.simps)
  have none: "runTaskQueueEnqueue demoRouterEnv demoFlags [''gt-h1'', ''gt-h1'', ''gastown'']
        demoBeads = (Some (AllEnqueueAttemptsFailed 2), demoBeads)"
    using batch_error_iff_no_success [where env = demoRouterEnv and w = demoBeads
        and townRoot = "''/town''"
        and args = "[''gt-h1'', ''gt-h1'', ''gastown'']" and explicitRig = "''gastown''"
        and beadArgs = "[''gt-h1'', ''gt-h1'']" and flags = demoFlags
        and topts = "taskEnqueueOptions demoFlags
           (resolveFormula demoRouterEnv (queueFormula demoFlags) (queueHookRawBead demoFlags))"
        and touts = "[(''gt-h1'', Some (ExecError ''bead is hooked'')),
                      (''gt-h1'', Some (ExecError ''bead is hooked''))]"
        and tw = demoBeads]
    by (simp add: env demo_split_hooked demo_validate_hooked demo_task_calls_hooked
        del: validateBatch.simps enqueueTaskBeads.simps taskCalls.simps)
  from some none show ?thesis by simp
qed

text \<open>
  The claim as it is stated, with the surviving candidate as its only condition, fails on
  a dry run: two candidates pass the filters, the convoy command returns no error, and
  the store is the one it was given, so nothing was enqueued.
\<close>

theorem convoy_dry_run_counterexample:
  "convoyCandidates demoRouterEnv (demoGroupOpts\<lparr>cq_DryRun := True\<rparr>) ''/town'' demoBeads
     [\<lparr>ti_ID = ''gt-h1'', ti_Title = ''Hooked'', ti_Status = ''hooked'', ti_Assignee = []\<rparr>,
      \<lparr>ti_ID = ''gt-t1'', ti_Title = ''Task one'', ti_Status = ''open'', ti_Assignee = []\<rparr>,
      \<lparr>ti_ID = ''gt-t2'', ti_Title = ''Task two'', ti_Status = ''open'', ti_Assignee = []\<rparr>]
     = [\<lparr>qc_ID = ''gt-h1'', qc_Title = ''Hooked'', qc_RigName = ''gastown''\<rparr>,
        \<lparr>qc_ID = ''gt-t2'', qc_Title = ''Task two'', qc_RigName = ''gastown''\<rparr>]
   \<and> runConvoyQueueByID demoRouterEnv ''hq-cv-1'' (demoGroupOpts\<lparr>cq_DryRun := True\<rparr>) demoBeads
     = (None, demoBeads)"
  by (simp add: runConvoyQueueByID_def demo_router_defs Let_def)

lemma demo_split_mixed:
  "splitTrailingRig demoRouterEnv demoBeads [''gt-h1'', ''gt-t2'', ''gt-e1'']
     = ([], [''gt-h1'', ''gt-t2'', ''gt-e1''])"
  by (simp add: splitTrailingRig_def demoRouterEnv_def)

lemma demo_detect_epic:
  "detectQueueIDType (getBeadInfo demoRouterEnv) demoBeads ''gt-e1'' = Inr ''epic''"
  by (simp add: detectQueueIDType_def demo_router_defs)

lemma demo_mixed_batch:
  "runTaskQueueEnqueue demoRouterEnv demoFlags [''gt-h1'', ''gt-t2'', ''gt-e1''] demoBeads
      = (Some (MixedIDTypes ''gt-e1'' ''epic''), demoBeads)"
  by (simp add: runTaskQueueEnqueue_def splitTrailingRig_def detectQueueIDType_def
      demo_router_defs Let_def)

theorem task_batch_validated_before_enqueue_witness:
  "runTaskQueueEnqueue demoRouterEnv demoFlags [''gt-h1'', ''gt-t2'', ''gt-e1''] demoBeads
      = (Some (MixedIDTypes ''gt-e1'' ''epic''), demoBeads)"
proof -
  have env: "demoRouterEnv\<lparr>enqueueBead := demoEnqueueBead\<rparr> = demoRouterEnv"
    by (simp add: demoRouterEnv_def)
  have "\<exists>err. runTaskQueueEnqueue demoRouterEnv demoFlags [''gt-h1'', ''gt-t2'', ''gt-e1'']
      demoBeads = (Some err, demoBeads)"
    using task_batch_validated_before_enqueue [where env = demoRouterEnv and w = demoBeads
        and args = "[''gt-h1'', ''gt-t2'', ''gt-e1'']" and explicitRig = "[]"
        and beadArgs = "[''gt-h1'', ''gt-t2'', ''gt-e1'']" and ident = "''gt-e1''"
        and anyEnqueue = demoEnqueueBead and flags = demoFlags]
    by (simp add: env demo_split_mixed demo_detect_epic)
  then show ?thesis by (simp add: demo_mixed_batch)
qed

section \<open>Metadata codec\<close>

text \<open>
  Modelled from the spec: \<^verbatim>\<open>FormatQueueMetadata\<close>, \<^verbatim>\<open>ParseQueueMetadata\<close> and
  \<^verbatim>\<open>StripQueueMetadata\<close> are not under \<^verbatim>\<open>src/\<close>. The model follows the spec's codec
  section and wire format: one delimiter line, then \<^verbatim>\<open>key: value\<close> lines in a fixed
  order, one \<^verbatim>\<open>var\<close> line per variable, no escaping; the delimiter is found by exact
  substring match; parsing reads the lines after the delimiter up to the next delimiter
  or the end of the text, ignores unknown keys and lines, and reads a malformed integer
  as zero. The keys and the delimiter are those of the design document.
\<close>

definition QueueMetadataDelimiter :: string where
  "QueueMetadataDelimiter = ''---gt:queue:v1---''"

definition newline :: char where
  "newline = CHR 0x0A"

text \<open>\<^verbatim>\<open>strings.Index\<close>: the position of the first occurrence, \<open>None\<close> for Go's \<open>-1\<close>.\<close>

fun strIndex :: "string \<Rightarrow> string \<Rightarrow> nat option" where
  "strIndex [] sub = (if sub = [] then Some 0 else None)"
| "strIndex (c # cs) sub =
     (if prefix sub (c # cs) then Some 0 else map_option Suc (strIndex cs sub))"

text \<open>\<^verbatim>\<open>strings.Split(s, "\n")\<close> and \<^verbatim>\<open>strings.Join(lines, "\n")\<close>.\<close>

fun splitLines :: "string \<Rightarrow> string list" where
  "splitLines [] = [[]]"
| "splitLines (c # cs) =
     (if c = newline then [] # splitLines cs
      else (case splitLines cs of
              [] \<Rightarrow> [[c]]
            | l # ls \<Rightarrow> (c # l) # ls))"

fun joinLines :: "string list \<Rightarrow> string" where
  "joinLines [] = []"
| "joinLines [l] = l"
| "joinLines (l # l' # ls) = l @ newline # joinLines (l' # ls)"

text \<open>Decimal integers, as \<^verbatim>\<open>%d\<close> prints them and \<^verbatim>\<open>strconv.Atoi\<close> reads them.\<close>

definition digitChar :: "nat \<Rightarrow> char" where
  "digitChar d = ''0123456789'' ! d"

definition digitVal :: "char \<Rightarrow> nat option" where
  "digitVal c = map_of (zip ''0123456789'' [0, 1, 2, 3, 4, 5, 6, 7, 8, 9]) c"

fun natDigits :: "nat \<Rightarrow> string" where
  "natDigits n = (if n < 10 then [digitChar n] else natDigits (n div 10) @ [digitChar (n mod 10)])"

declare natDigits.simps [simp del]

definition formatInt :: "int \<Rightarrow> string" where
  "formatInt i = (if i < 0 then CHR ''-'' # natDigits (nat (- i)) else natDigits (nat i))"

fun parseDigits :: "string \<Rightarrow> nat \<Rightarrow> nat option" where
  "parseDigits [] acc = Some acc"
| "parseDigits (c # cs) acc =
     (case digitVal c of
        None \<Rightarrow> None
      | Some d \<Rightarrow> parseDigits cs (acc * 10 + d))"

definition parseInt :: "string \<Rightarrow> int option" where
  "parseInt s =
     (case s of
        [] \<Rightarrow> None
      | c # cs \<Rightarrow>
          if c = CHR ''-'' then (if cs = [] then None
                                else map_option (\<lambda>n. - int n) (parseDigits cs 0))
          else if c = CHR ''+'' then (if cs = [] then None
                                     else map_option int (parseDigits cs 0))
          else map_option int (parseDigits s 0))"

definition formatBool :: "bool \<Rightarrow> string" where
  "formatBool b = (if b then ''true'' else ''false'')"

text \<open>The zero value of the record.\<close>

definition emptyMetadata :: QueueMetadata where
  "emptyMetadata =
     \<lparr>TargetRig = [], meta_Formula = [], meta_Args = [], meta_Vars = [], EnqueuedAt = [],
      meta_Merge = [], Convoy = [], meta_BaseBranch = [], meta_NoMerge = False,
      meta_Account = [], meta_Agent = [], meta_HookRawBead = False, meta_Owned = False,
      Mode = [], DispatchFailures = 0, LastFailure = []\<rparr>"

text \<open>
  The fields of a record as key and value texts, in the fixed order of the field
  reference, with one \<^verbatim>\<open>var\<close> entry per variable.
\<close>

definition metadataFields :: "QueueMetadata \<Rightarrow> (string \<times> string) list" where
  "metadataFields m =
     [(''target_rig'', TargetRig m),
      (''formula'', meta_Formula m),
      (''args'', meta_Args m)]
     @ map (\<lambda>v. (''var'', v)) (meta_Vars m)
     @ [(''enqueued_at'', EnqueuedAt m),
        (''merge'', meta_Merge m),
        (''convoy'', Convoy m),
        (''base_branch'', meta_BaseBranch m),
        (''no_merge'', formatBool (meta_NoMerge m)),
        (''account'', meta_Account m),
        (''agent'', meta_Agent m),
        (''hook_raw_bead'', formatBool (meta_HookRawBead m)),
        (''owned'', formatBool (meta_Owned m)),
        (''mode'', Mode m),
        (''dispatch_failures'', formatInt (DispatchFailures m)),
        (''last_failure'', LastFailure m)]"

text \<open>One \<^verbatim>\<open>key: value\<close> line.\<close>

definition renderField :: "string \<times> string \<Rightarrow> string" where
  "renderField kv = fst kv @ '': '' @ snd kv"

text \<open>
  Modelled from the spec: \<^verbatim>\<open>FormatQueueMetadata\<close> (\<^verbatim>\<open>format(metadata) -> text\<close>) is not
  under \<^verbatim>\<open>src/\<close>. The block is the delimiter line followed by the field lines; the
  caller appends it to the description.
\<close>

definition FormatQueueMetadata :: "QueueMetadata \<Rightarrow> string" where
  "FormatQueueMetadata m =
     joinLines (QueueMetadataDelimiter # map renderField (metadataFields m))"

text \<open>A line is cut at its first \<^verbatim>\<open>": "\<close>; a line without one carries no field.\<close>

fun cutKeyValue :: "string \<Rightarrow> (string \<times> string) option" where
  "cutKeyValue [] = None"
| "cutKeyValue [c] = None"
| "cutKeyValue (c # d # rest) =
     (if c = CHR '':'' \<and> d = CHR '' '' then Some ([], rest)
      else map_option (\<lambda>(k, v). (c # k, v)) (cutKeyValue (d # rest)))"

text \<open>
  Storing one parsed field: a known key sets its typed field, \<^verbatim>\<open>var\<close> appends, an
  unknown key is ignored, a failure count that is not an integer reads as zero.
\<close>

definition applyField :: "QueueMetadata \<Rightarrow> string \<Rightarrow> string \<Rightarrow> QueueMetadata" where
  "applyField m k v =
     (if k = ''target_rig'' then m\<lparr>TargetRig := v\<rparr>
      else if k = ''formula'' then m\<lparr>meta_Formula := v\<rparr>
      else if k = ''args'' then m\<lparr>meta_Args := v\<rparr>
      else if k = ''var'' then m\<lparr>meta_Vars := meta_Vars m @ [v]\<rparr>
      else if k = ''enqueued_at'' then m\<lparr>EnqueuedAt := v\<rparr>
      else if k = ''merge'' then m\<lparr>meta_Merge := v\<rparr>
      else if k = ''convoy'' then m\<lparr>Convoy := v\<rparr>
      else if k = ''base_branch'' then m\<lparr>meta_BaseBranch := v\<rparr>
      else if k = ''no_merge'' then m\<lparr>meta_NoMerge := (v = ''true'')\<rparr>
      else if k = ''account'' then m\<lparr>meta_Account := v\<rparr>
      else if k = ''agent'' then m\<lparr>meta_Agent := v\<rparr>
      else if k = ''hook_raw_bead'' then m\<lparr>meta_HookRawBead := (v = ''true'')\<rparr>
      else if k = ''owned'' then m\<lparr>meta_Owned := (v = ''true'')\<rparr>
      else if k = ''mode'' then m\<lparr>Mode := v\<rparr>
      else if k = ''dispatch_failures''
        then m\<lparr>DispatchFailures := (case parseInt v of Some i \<Rightarrow> i | None \<Rightarrow> 0)\<rparr>
      else if k = ''last_failure'' then m\<lparr>LastFailure := v\<rparr>
      else m)"

definition applyLine :: "QueueMetadata \<Rightarrow> string \<Rightarrow> QueueMetadata" where
  "applyLine m line =
     (case cutKeyValue line of
        None \<Rightarrow> m
      | Some (k, v) \<Rightarrow> applyField m k v)"

text \<open>
  Modelled from the spec: \<^verbatim>\<open>ParseQueueMetadata\<close> (\<^verbatim>\<open>parse(description) -> metadata | nil\<close>)
  is not under \<^verbatim>\<open>src/\<close>. \<open>None\<close> when the delimiter is absent; otherwise the lines after
  the first delimiter, up to the next delimiter or the end of the text, are read into the
  fields. A record without a target partition is still returned: the dispatcher is the one
  that treats it as absent.
\<close>

definition ParseQueueMetadata :: "string \<Rightarrow> QueueMetadata option" where
  "ParseQueueMetadata description =
     (case strIndex description QueueMetadataDelimiter of
        None \<Rightarrow> None
      | Some idx \<Rightarrow>
          (let section = drop (idx + length QueueMetadataDelimiter) description;
               body = (case strIndex section QueueMetadataDelimiter of
                         None \<Rightarrow> section
                       | Some next \<Rightarrow> take next section)
           in Some (foldl applyLine emptyMetadata (splitLines body))))"

text \<open>
  Modelled from the spec: \<^verbatim>\<open>StripQueueMetadata\<close> (\<^verbatim>\<open>strip(description) -> text\<close>) is not
  under \<^verbatim>\<open>src/\<close>. The text is cut at the first occurrence of the delimiter; what
  precedes it is kept as it is.
\<close>

definition StripQueueMetadata :: "string \<Rightarrow> string" where
  "StripQueueMetadata description =
     (case strIndex description QueueMetadataDelimiter of
        None \<Rightarrow> description
      | Some idx \<Rightarrow> take idx description)"

subsection \<open>Lines, digits and the delimiter\<close>

lemma strIndex_None_iff: "strIndex s sub = None \<longleftrightarrow> \<not> sublist sub s"
  by (induction s) (auto simp: sublist_Cons_right)

lemma strIndex_prefix: "strIndex (sub @ rest) sub = Some 0"
proof (cases "sub @ rest")
  case Nil then show ?thesis by simp
next
  case (Cons a l)
  have "prefix sub (sub @ rest)" by simp
  then show ?thesis unfolding Cons by simp
qed

lemma strIndex_Some_take:
  "strIndex s sub = Some i \<Longrightarrow> sub \<noteq> [] \<Longrightarrow> strIndex (take i s) sub = None"
proof (induction s arbitrary: i)
  case Nil then show ?case by (simp split: if_splits)
next
  case (Cons c cs)
  show ?case
  proof (cases "prefix sub (c # cs)")
    case True
    with Cons.prems show ?thesis by simp
  next
    case False
    with Cons.prems obtain j where j: "strIndex cs sub = Some j" "i = Suc j" by auto
    have "prefix (c # take j cs) (c # cs)" by (simp add: take_is_prefix)
    then have "\<not> prefix sub (c # take j cs)"
      using False prefix_order.trans by blast
    with j Cons.IH [OF j(1) Cons.prems(2)] show ?thesis by simp
  qed
qed

lemma splitLines_no_newline: "newline \<notin> set l \<Longrightarrow> splitLines l = [l]"
  by (induction l) auto

lemma splitLines_append_newline:
  "newline \<notin> set l \<Longrightarrow> splitLines (l @ newline # rest) = l # splitLines rest"
  by (induction l) auto

lemma splitLines_joinLines:
  "ls \<noteq> [] \<Longrightarrow> \<forall>l \<in> set ls. newline \<notin> set l \<Longrightarrow> splitLines (joinLines ls) = ls"
proof (induction ls rule: joinLines.induct)
  case 1 then show ?case by simp
next
  case (2 l) then show ?case by (simp add: splitLines_no_newline)
next
  case (3 l l' ls)
  then show ?case by (simp add: splitLines_append_newline)
qed

lemma digitVal_digitChar: "d < 10 \<Longrightarrow> digitVal (digitChar d) = Some d"
proof -
  assume "d < 10"
  then have "d = 0 \<or> d = 1 \<or> d = 2 \<or> d = 3 \<or> d = 4 \<or> d = 5 \<or> d = 6 \<or> d = 7 \<or> d = 8 \<or> d = 9"
    by arith
  then show ?thesis by (elim disjE) (simp_all add: digitVal_def digitChar_def)
qed

lemma parseDigits_append:
  "parseDigits (xs @ ys) acc = (case parseDigits xs acc of None \<Rightarrow> None | Some a \<Rightarrow> parseDigits ys a)"
  by (induction xs arbitrary: acc) (auto split: option.splits)

lemma natDigits_small: "n < 10 \<Longrightarrow> natDigits n = [digitChar n]"
  by (subst natDigits.simps) simp

lemma natDigits_large:
  "\<not> n < 10 \<Longrightarrow> natDigits n = natDigits (n div 10) @ [digitChar (n mod 10)]"
  by (subst natDigits.simps) simp

lemma parseDigits_natDigits: "parseDigits (natDigits n) 0 = Some n"
proof (induction n rule: natDigits.induct)
  case (1 n)
  show ?case
  proof (cases "n < 10")
    case True
    then show ?thesis by (simp add: natDigits_small digitVal_digitChar)
  next
    case False
    have "n mod 10 < 10" by simp
    with False 1 show ?thesis
      by (simp add: natDigits_large parseDigits_append digitVal_digitChar)
  qed
qed

lemma natDigits_nonempty: "natDigits n \<noteq> []"
  by (cases "n < 10") (simp_all add: natDigits_small natDigits_large)

lemma digitChar_not_sign: "d < 10 \<Longrightarrow> digitChar d \<noteq> CHR ''-'' \<and> digitChar d \<noteq> CHR ''+''"
proof -
  assume "d < 10"
  then have "d = 0 \<or> d = 1 \<or> d = 2 \<or> d = 3 \<or> d = 4 \<or> d = 5 \<or> d = 6 \<or> d = 7 \<or> d = 8 \<or> d = 9"
    by arith
  then show ?thesis by (elim disjE) (simp_all add: digitChar_def)
qed

lemma hd_natDigits: "hd (natDigits n) \<noteq> CHR ''-'' \<and> hd (natDigits n) \<noteq> CHR ''+''"
proof (induction n rule: natDigits.induct)
  case (1 n)
  show ?case
  proof (cases "n < 10")
    case True
    then show ?thesis using digitChar_not_sign [of n] by (simp add: natDigits_small)
  next
    case False
    with 1 show ?thesis
      by (simp add: natDigits_large natDigits_nonempty)
  qed
qed

lemma parseInt_formatInt: "parseInt (formatInt i) = Some i"
proof (cases "i < 0")
  case True
  then show ?thesis
    by (simp add: parseInt_def formatInt_def natDigits_nonempty parseDigits_natDigits)
next
  case False
  obtain c cs where d: "natDigits (nat i) = c # cs"
    using natDigits_nonempty [of "nat i"] by (cases "natDigits (nat i)") auto
  have "c \<noteq> CHR ''-''" "c \<noteq> CHR ''+''" using hd_natDigits [of "nat i"] d by auto
  moreover have "parseDigits (c # cs) 0 = Some (nat i)"
    using parseDigits_natDigits [of "nat i"] d by simp
  ultimately show ?thesis using False d
    by (simp add: parseInt_def formatInt_def del: parseDigits.simps)
qed




lemma cutKeyValue_render:
  "CHR '':'' \<notin> set k \<Longrightarrow> cutKeyValue (k @ CHR '':'' # CHR '' '' # v) = Some (k, v)"
proof (induction k)
  case Nil then show ?case by simp
next
  case (Cons c k)
  then show ?case by (cases "k @ CHR '':'' # CHR '' '' # v") auto
qed

definition knownKeys :: "string list" where
  "knownKeys = [''target_rig'', ''formula'', ''args'', ''var'', ''enqueued_at'', ''merge'',
     ''convoy'', ''base_branch'', ''no_merge'', ''account'', ''agent'', ''hook_raw_bead'',
     ''owned'', ''mode'', ''dispatch_failures'', ''last_failure'']"

lemma keys_known: "fst ` set (metadataFields m) \<subseteq> set knownKeys"
  by (auto simp: metadataFields_def knownKeys_def)

lemma knownKeys_plain:
  "k \<in> set knownKeys \<Longrightarrow> CHR '':'' \<notin> set k \<and> CHR ''-'' \<notin> set k \<and> newline \<notin> set k"
  by (auto simp: knownKeys_def newline_def)

lemma applyLine_render:
  "k \<in> set knownKeys \<Longrightarrow> applyLine m (renderField (k, v)) = applyField m k v"
  using knownKeys_plain [of k] by (simp add: applyLine_def renderField_def cutKeyValue_render)

lemma foldl_applyLine_render:
  "fst ` set fs \<subseteq> set knownKeys \<Longrightarrow>
     foldl applyLine m (map renderField fs) = foldl (\<lambda>m kv. applyField m (fst kv) (snd kv)) m fs"
proof (induction fs arbitrary: m)
  case Nil then show ?case by simp
next
  case (Cons f fs)
  obtain k v where f: "f = (k, v)" by (cases f)
  with Cons.prems have "k \<in> set knownKeys" by auto
  then show ?case using Cons f by (simp add: applyLine_render)
qed

lemma applyField_keys:
  "applyField m ''target_rig'' v = m\<lparr>TargetRig := v\<rparr>"
  "applyField m ''formula'' v = m\<lparr>meta_Formula := v\<rparr>"
  "applyField m ''args'' v = m\<lparr>meta_Args := v\<rparr>"
  "applyField m ''var'' v = m\<lparr>meta_Vars := meta_Vars m @ [v]\<rparr>"
  "applyField m ''enqueued_at'' v = m\<lparr>EnqueuedAt := v\<rparr>"
  "applyField m ''merge'' v = m\<lparr>meta_Merge := v\<rparr>"
  "applyField m ''convoy'' v = m\<lparr>Convoy := v\<rparr>"
  "applyField m ''base_branch'' v = m\<lparr>meta_BaseBranch := v\<rparr>"
  "applyField m ''no_merge'' v = m\<lparr>meta_NoMerge := (v = ''true'')\<rparr>"
  "applyField m ''account'' v = m\<lparr>meta_Account := v\<rparr>"
  "applyField m ''agent'' v = m\<lparr>meta_Agent := v\<rparr>"
  "applyField m ''hook_raw_bead'' v = m\<lparr>meta_HookRawBead := (v = ''true'')\<rparr>"
  "applyField m ''owned'' v = m\<lparr>meta_Owned := (v = ''true'')\<rparr>"
  "applyField m ''mode'' v = m\<lparr>Mode := v\<rparr>"
  "applyField m ''dispatch_failures'' v =
     m\<lparr>DispatchFailures := (case parseInt v of Some i \<Rightarrow> i | None \<Rightarrow> 0)\<rparr>"
  "applyField m ''last_failure'' v = m\<lparr>LastFailure := v\<rparr>"
  by (simp_all add: applyField_def)

lemma foldl_vars:
  "foldl (\<lambda>m kv. applyField m (fst kv) (snd kv)) m (map (Pair ''var'') vs)
     = m\<lparr>meta_Vars := meta_Vars m @ vs\<rparr>"
  by (induction vs arbitrary: m) (simp_all add: applyField_keys)

lemma formatBool_true: "formatBool b = ''true'' \<longleftrightarrow> b"
  by (simp add: formatBool_def)

lemma applyFields_metadataFields:
  "foldl (\<lambda>m kv. applyField m (fst kv) (snd kv)) emptyMetadata (metadataFields m) = m"
  by (simp add: metadataFields_def foldl_vars applyField_keys emptyMetadata_def
      formatBool_true parseInt_formatInt)



text \<open>
  A text that the line format carries unchanged: no line break and no occurrence of the
  delimiter.
\<close>

definition plainText :: "string \<Rightarrow> bool" where
  "plainText v \<longleftrightarrow> newline \<notin> set v \<and> strIndex v QueueMetadataDelimiter = None"

definition wellFormedMetadata :: "QueueMetadata \<Rightarrow> bool" where
  "wellFormedMetadata m \<longleftrightarrow>
     plainText (TargetRig m) \<and> plainText (meta_Formula m) \<and> plainText (meta_Args m)
     \<and> list_all plainText (meta_Vars m) \<and> plainText (EnqueuedAt m)
     \<and> plainText (meta_Merge m) \<and> plainText (Convoy m) \<and> plainText (meta_BaseBranch m)
     \<and> plainText (meta_Account m) \<and> plainText (meta_Agent m) \<and> plainText (Mode m)
     \<and> plainText (LastFailure m)"

lemma delimiter_facts:
  "QueueMetadataDelimiter \<noteq> []" "hd QueueMetadataDelimiter = CHR ''-''"
  "newline \<notin> set QueueMetadataDelimiter" "CHR ''g'' \<in> set QueueMetadataDelimiter"
  "length QueueMetadataDelimiter = 17"
  by (simp_all add: QueueMetadataDelimiter_def newline_def)

lemma sublist_through_separator:
  assumes "c \<notin> set sub" and "sublist sub (l @ c # rest)"
  shows "sublist sub l \<or> sublist sub rest"
proof -
  from assms(2) consider "sublist sub l" | "sublist sub (c # rest)"
    | xs1 xs2 where "sub = xs1 @ xs2" "suffix xs1 l" "prefix xs2 (c # rest)"
    unfolding sublist_append by blast
  then show ?thesis
  proof cases
    case 1 then show ?thesis by simp
  next
    case 2
    then have "prefix sub (c # rest) \<or> sublist sub rest" by (simp add: sublist_Cons_right)
    moreover have "prefix sub (c # rest) \<Longrightarrow> sub = []"
      using assms(1) by (cases sub) auto
    ultimately show ?thesis by auto
  next
    case 3
    have "xs2 = []" using 3(1,3) assms(1) by (cases xs2) auto
    with 3 show ?thesis by auto
  qed
qed

lemma sublist_joinLines:
  "newline \<notin> set sub \<Longrightarrow> sub \<noteq> [] \<Longrightarrow> sublist sub (joinLines ls) \<Longrightarrow> \<exists>l \<in> set ls. sublist sub l"
proof (induction ls rule: joinLines.induct)
  case 1 then show ?case by simp
next
  case (2 l) then show ?case by simp
next
  case (3 l l' ls)
  from 3(4) have "sublist sub (l @ newline # joinLines (l' # ls))" by simp
  from sublist_through_separator [OF 3(2) this] 3 show ?case by auto
qed

lemma sublist_skip_prefix:
  "sub \<noteq> [] \<Longrightarrow> hd sub \<notin> set p \<Longrightarrow> sublist sub (p @ v) \<Longrightarrow> sublist sub v"
proof (induction p)
  case Nil then show ?case by simp
next
  case (Cons a p)
  from Cons.prems(3) have "prefix sub (a # p @ v) \<or> sublist sub (p @ v)"
    by (simp add: sublist_Cons_right)
  moreover have "\<not> prefix sub (a # p @ v)"
    using Cons.prems(1,2) by (cases sub) auto
  ultimately show ?case using Cons by auto
qed

lemma natDigits_digits: "c \<in> set (natDigits n) \<Longrightarrow> digitVal c \<noteq> None"
proof (induction n rule: natDigits.induct)
  case (1 n)
  show ?case
  proof (cases "n < 10")
    case True
    with 1(2) show ?thesis using digitVal_digitChar [of n] by (simp add: natDigits_small)
  next
    case False
    have "n mod 10 < 10" by simp
    from digitVal_digitChar [OF this] False 1 show ?thesis
      by (auto simp: natDigits_large)
  qed
qed

lemma formatInt_chars: "c \<in> set (formatInt i) \<Longrightarrow> c = CHR ''-'' \<or> digitVal c \<noteq> None"
  by (cases "i < 0") (auto simp: formatInt_def dest: natDigits_digits)

lemma plainText_formatInt: "plainText (formatInt i)"
proof -
  have nd: "digitVal newline = None" "digitVal (CHR ''g'') = None"
    by (simp_all add: digitVal_def newline_def)
  have "newline \<notin> set (formatInt i)"
    using formatInt_chars [of newline i] nd(1) by (auto simp: newline_def)
  moreover have "\<not> sublist QueueMetadataDelimiter (formatInt i)"
  proof
    assume "sublist QueueMetadataDelimiter (formatInt i)"
    then have "set QueueMetadataDelimiter \<subseteq> set (formatInt i)" by (rule set_mono_sublist)
    with delimiter_facts(4) have "CHR ''g'' \<in> set (formatInt i)" by blast
    from formatInt_chars [OF this] nd(2) show False by simp
  qed
  ultimately show ?thesis by (simp add: plainText_def strIndex_None_iff)
qed

lemma plainText_formatBool: "plainText (formatBool b)"
proof -
  have "\<not> sublist QueueMetadataDelimiter (formatBool b)"
    using sublist_length_le [of QueueMetadataDelimiter "formatBool b"]
    by (auto simp: delimiter_facts formatBool_def)
  then show ?thesis by (auto simp: plainText_def strIndex_None_iff formatBool_def newline_def)
qed

lemma values_plain:
  "wellFormedMetadata m \<Longrightarrow> kv \<in> set (metadataFields m) \<Longrightarrow> plainText (snd kv)"
  by (auto simp: wellFormedMetadata_def metadataFields_def plainText_formatInt
      plainText_formatBool list_all_iff)

lemma renderField_plain:
  assumes "k \<in> set knownKeys" and "plainText v"
  shows "newline \<notin> set (renderField (k, v))"
    and "\<not> sublist QueueMetadataDelimiter (renderField (k, v))"
proof -
  from knownKeys_plain [OF assms(1)] assms(2)
  show "newline \<notin> set (renderField (k, v))"
    by (simp add: renderField_def plainText_def newline_def)
  have "hd QueueMetadataDelimiter \<notin> set (k @ '': '')"
    using knownKeys_plain [OF assms(1)] by (simp add: delimiter_facts)
  from sublist_skip_prefix [OF delimiter_facts(1) this, of v] assms(2)
  show "\<not> sublist QueueMetadataDelimiter (renderField (k, v))"
    by (auto simp: renderField_def plainText_def strIndex_None_iff)
qed

lemma lines_plain:
  assumes "wellFormedMetadata m" and "l \<in> set (map renderField (metadataFields m))"
  shows "newline \<notin> set l" and "\<not> sublist QueueMetadataDelimiter l"
proof -
  from assms(2) obtain k v where kv: "(k, v) \<in> set (metadataFields m)" "l = renderField (k, v)"
    by auto
  from kv(1) keys_known [of m] have k: "k \<in> set knownKeys" by force
  from values_plain [OF assms(1) kv(1)] have v: "plainText v" by simp
  from renderField_plain [OF k v] kv(2)
  show "newline \<notin> set l" and "\<not> sublist QueueMetadataDelimiter l" by simp_all
qed

lemma metadataFields_nonempty: "metadataFields m \<noteq> []"
  by (simp add: metadataFields_def)

lemma FormatQueueMetadata_shape:
  "FormatQueueMetadata m =
     QueueMetadataDelimiter @ newline # joinLines (map renderField (metadataFields m))"
  using metadataFields_nonempty [of m]
  by (cases "metadataFields m") (simp_all add: FormatQueueMetadata_def)

lemma parse_format:
  assumes "wellFormedMetadata m"
  shows "ParseQueueMetadata (FormatQueueMetadata m) = Some m"
proof -
  let ?ls = "map renderField (metadataFields m)"
  let ?body = "newline # joinLines ?ls"
  have idx: "strIndex (FormatQueueMetadata m) QueueMetadataDelimiter = Some 0"
    unfolding FormatQueueMetadata_shape by (rule strIndex_prefix)
  have sect: "drop (0 + length QueueMetadataDelimiter) (FormatQueueMetadata m) = ?body"
    unfolding FormatQueueMetadata_shape by simp
  have "\<not> sublist QueueMetadataDelimiter (joinLines ?ls)"
    using sublist_joinLines [OF delimiter_facts(3) delimiter_facts(1), of ?ls]
      lines_plain(2) [OF assms] by blast
  moreover have "hd QueueMetadataDelimiter \<notin> set [newline]"
    by (simp add: delimiter_facts newline_def)
  ultimately have "\<not> sublist QueueMetadataDelimiter ?body"
    using sublist_skip_prefix [OF delimiter_facts(1), of "[newline]" "joinLines ?ls"] by auto
  then have nonext: "strIndex ?body QueueMetadataDelimiter = None"
    unfolding strIndex_None_iff .
  have "splitLines (joinLines ?ls) = ?ls"
    using splitLines_joinLines [of ?ls] metadataFields_nonempty [of m] lines_plain(1) [OF assms]
    by simp
  then have lines: "splitLines ?body = [] # ?ls" by simp
  have "foldl applyLine emptyMetadata ([] # ?ls) = foldl applyLine emptyMetadata ?ls"
    by (simp add: applyLine_def)
  also have "\<dots> = m"
    using foldl_applyLine_render [OF keys_known, of emptyMetadata m]
    by (simp add: applyFields_metadataFields)
  finally have fold: "foldl applyLine emptyMetadata ([] # ?ls) = m" .
  show ?thesis
    unfolding ParseQueueMetadata_def idx option.case Let_def sect nonext lines fold
    by (rule refl)
qed

lemma parse_strip: "ParseQueueMetadata (StripQueueMetadata d) = None"
proof (cases "strIndex d QueueMetadataDelimiter")
  case None
  then show ?thesis by (simp add: StripQueueMetadata_def ParseQueueMetadata_def)
next
  case (Some i)
  from strIndex_Some_take [OF this delimiter_facts(1)]
  show ?thesis by (simp add: StripQueueMetadata_def ParseQueueMetadata_def Some)
qed

subsection \<open>The round trip\<close>

text \<open>
  Claim C5, as amended. For a record whose text fields and variables contain neither a
  newline nor the delimiter, parsing the formatted text gives the record back, zero
  values and repeated variables included; and for every record, stripping the formatted
  text leaves a text that parses to nothing.
\<close>

theorem metadata_roundtrip:
  "(wellFormedMetadata m \<longrightarrow> ParseQueueMetadata (FormatQueueMetadata m) = Some m)
   \<and> ParseQueueMetadata (StripQueueMetadata (FormatQueueMetadata m)) = None"
  by (simp add: parse_format parse_strip)

definition sampleMetadata :: QueueMetadata where
  "sampleMetadata =
     \<lparr>TargetRig = ''gastown'', meta_Formula = ''mol-polecat-work'', meta_Args = ''fix: the bug'',
      meta_Vars = [''a=1'', ''a=1'', ''b=x: y''], EnqueuedAt = ''2026-02-19T10:00:00Z'',
      meta_Merge = ''mr'', Convoy = [], meta_BaseBranch = [], meta_NoMerge = True,
      meta_Account = [], meta_Agent = [], meta_HookRawBead = False, meta_Owned = False,
      Mode = [], DispatchFailures = 0, LastFailure = []\<rparr>"

lemma sample_wf: "wellFormedMetadata sampleMetadata"
  by (simp add: wellFormedMetadata_def plainText_def sampleMetadata_def newline_def
      QueueMetadataDelimiter_def)

theorem metadata_roundtrip_witness:
  "wellFormedMetadata sampleMetadata
   \<and> ParseQueueMetadata (FormatQueueMetadata sampleMetadata) = Some sampleMetadata
   \<and> ParseQueueMetadata (StripQueueMetadata (FormatQueueMetadata sampleMetadata)) = None"
  using metadata_roundtrip [of sampleMetadata] sample_wf by simp

text \<open>
  The round trip as the claim states it, for every record, fails: the wire format does
  not escape, and an instruction text with a line break that looks like a field is read
  as that field. A value that holds the delimiter ends the block early in the same way
  (\<open>delimiter_in_value_parse\<close>).
\<close>

definition multilineMetadata :: QueueMetadata where
  "multilineMetadata =
     emptyMetadata\<lparr>TargetRig := ''gastown'', meta_Formula := ''mol-polecat-work'',
       meta_Args := ''fix it'' @ [newline] @ ''formula: other''\<rparr>"

lemma multiline_parse:
  "ParseQueueMetadata (FormatQueueMetadata multilineMetadata)
     = Some (multilineMetadata\<lparr>meta_Formula := ''other'', meta_Args := ''fix it''\<rparr>)"
  by code_simp

lemma delimiter_in_value_parse:
  "ParseQueueMetadata
     (FormatQueueMetadata (emptyMetadata\<lparr>TargetRig := ''gastown'',
        meta_Args := QueueMetadataDelimiter, Mode := ''ralph''\<rparr>))
     = Some (emptyMetadata\<lparr>TargetRig := ''gastown''\<rparr>)"
  by code_simp

theorem metadata_roundtrip_counterexample:
  "ParseQueueMetadata (FormatQueueMetadata multilineMetadata) \<noteq> Some multilineMetadata"
  by (simp add: multiline_parse) (simp add: multilineMetadata_def emptyMetadata_def)

section \<open>The dispatch core, from the spec\<close>

text \<open>
  Modelled from the spec: \<^verbatim>\<open>enqueueBead\<close> and \<^verbatim>\<open>dispatchQueuedWork\<close> (with the
  capacity computation and the per-item dispatch) are not under \<^verbatim>\<open>src/\<close>; the design
  document places them in \<^verbatim>\<open>sling_queue.go\<close> and \<^verbatim>\<open>queue_dispatch.go\<close>. The model
  follows the numbered steps of the spec's sections on the enqueue pipeline and the
  dispatch engine. The issue store is a map from identifiers to items; the global state
  file is kept beside it.
\<close>

record bead =
  bead_Title :: string
  bead_Status :: string
  bead_Assignee :: string
  bead_Labels :: "string list"
  bead_Description :: string

type_synonym store = "string \<Rightarrow> bead option"

record world =
  stateFile :: "QueueState option"
  beads :: store

definition LabelQueueDispatched :: string where
  "LabelQueueDispatched = ''gt:queue-dispatched''"

definition LabelDispatchFailed :: string where
  "LabelDispatchFailed = ''gt:dispatch-failed''"

text \<open>Labels are a set of flags: adding a label that is present changes nothing.\<close>

definition addLabel :: "string \<Rightarrow> string \<Rightarrow> store \<Rightarrow> store" where
  "addLabel ident l s =
     (case s ident of
        None \<Rightarrow> s
      | Some b \<Rightarrow>
          if l \<in> set (bead_Labels b) then s
          else s(ident \<mapsto> b\<lparr>bead_Labels := bead_Labels b @ [l]\<rparr>))"

definition removeLabel :: "string \<Rightarrow> string \<Rightarrow> store \<Rightarrow> store" where
  "removeLabel ident l s =
     (case s ident of
        None \<Rightarrow> s
      | Some b \<Rightarrow> s(ident \<mapsto> b\<lparr>bead_Labels := removeAll l (bead_Labels b)\<rparr>))"

definition setDescription :: "string \<Rightarrow> string \<Rightarrow> store \<Rightarrow> store" where
  "setDescription ident d s =
     (case s ident of
        None \<Rightarrow> s
      | Some b \<Rightarrow> s(ident \<mapsto> b\<lparr>bead_Description := d\<rparr>))"

text \<open>
  The parameter record handed to the execution collaborator (the spec's external
  interfaces).
\<close>

record execParams =
  ep_BeadID :: string
  ep_TargetRig :: string
  ep_Formula :: string
  ep_HookRawBead :: bool
  ep_Args :: string
  ep_Vars :: "string list"
  ep_Merge :: string
  ep_BaseBranch :: string
  ep_Account :: string
  ep_Agent :: string
  ep_Mode :: string
  ep_NoConvoy :: bool
  ep_NoBoot :: bool
  ep_CallerContext :: string

datatype storeOp = UpdateDescription string | AddLabel string string

text \<open>
  The collaborators of the core: the mapping from an identifier's prefix to its
  partition, the formula lookup and the dry compile, the clock, whether the store
  performs a write of the enqueue pipeline, the tracking collaborator, the execution
  collaborator (a failure carries its message), the session registry's worker count, the
  capacity configuration, and the ready set of the resolver in the store's order. They
  act on the issue store, not on the state file.
\<close>

record coreEnv =
  rigOfPrefix :: "string \<Rightarrow> string"
  formulaExists :: "string \<Rightarrow> bool"
  cookFormula :: "string \<Rightarrow> string \<Rightarrow> string option"
  clockNow :: string
  storeAccepts :: "storeOp \<Rightarrow> bool"
  ensureTracked :: "string \<Rightarrow> store \<Rightarrow> store"
  execute :: "execParams \<Rightarrow> store \<Rightarrow> string option \<times> store"
  countActiveWorkers :: "store \<Rightarrow> int"
  configMaxWorkers :: int
  configBatchSize :: int
  readyCandidates :: "store \<Rightarrow> error + string list"

subsection \<open>Enqueue pipeline\<close>

definition metadataOfOptions :: "coreEnv \<Rightarrow> string \<Rightarrow> EnqueueOptions \<Rightarrow> QueueMetadata" where
  "metadataOfOptions env rig opts =
     \<lparr>TargetRig = rig, meta_Formula = Formula opts, meta_Args = Args opts,
      meta_Vars = Vars opts, EnqueuedAt = clockNow env, meta_Merge = Merge opts,
      Convoy = [], meta_BaseBranch = BaseBranch opts, meta_NoMerge = NoMerge opts,
      meta_Account = Account opts, meta_Agent = Agent opts,
      meta_HookRawBead = HookRawBead opts, meta_Owned = Owned opts,
      Mode = (if Ralph opts then ''ralph'' else []), DispatchFailures = 0,
      LastFailure = []\<rparr>"

text \<open>Step 7: the stripped description followed by the new block.\<close>

definition withMetadata :: "string \<Rightarrow> QueueMetadata \<Rightarrow> string" where
  "withMetadata description meta =
     (let base = StripQueueMetadata description
      in if base = [] then FormatQueueMetadata meta
         else base @ newline # FormatQueueMetadata meta)"

text \<open>
  Modelled from the spec: \<^verbatim>\<open>enqueueBead\<close> is not under \<^verbatim>\<open>src/\<close>. These are the
  steps of \<^verbatim>\<open>enqueue(itemID, targetPartition, options)\<close> in the spec's order. A dry
  run ends after the validations of steps 1 to 6, before the first write. When the label
  cannot be added (step 9), the description write is rolled back (step 10): the store
  returned is the one the call was given.
\<close>

definition specEnqueueBead ::
  "coreEnv \<Rightarrow> string \<Rightarrow> string \<Rightarrow> EnqueueOptions \<Rightarrow> store \<Rightarrow> error option \<times> store" where
  "specEnqueueBead env ident rig opts s =
     (case s ident of
        None \<Rightarrow> (Some (NotFound ident), s)
      | Some b \<Rightarrow>
          if rigOfPrefix env ident \<noteq> rig \<and> \<not> Force opts
            then (Some (GuardRejected ''cross-partition''), s)
          else if bead_Status b = ''open'' \<and> LabelQueued \<in> set (bead_Labels b) \<and> \<not> Force opts
            then (None, s)
          else if (bead_Status b = ''hooked'' \<or> bead_Status b = ''in_progress'') \<and> \<not> Force opts
            then (Some (GuardRejected ''status''), s)
          else if \<not> HookRawBead opts \<and> Formula opts \<noteq> [] \<and> \<not> formulaExists env (Formula opts)
            then (Some (FormulaInvalid (Formula opts)), s)
          else
            (case (if \<not> HookRawBead opts \<and> Formula opts \<noteq> []
                   then cookFormula env (Formula opts) ident else None) of
               Some msg \<Rightarrow> (Some (FormulaInvalid msg), s)
             | None \<Rightarrow>
                 if DryRun opts then (None, s)
                 else
                   (let meta = metadataOfOptions env rig opts;
                        description = withMetadata (bead_Description b) meta
                    in if \<not> storeAccepts env (UpdateDescription ident)
                         then (Some (StoreUnavailable ''update description''), s)
                       else
                         (let s1 = setDescription ident description s
                          in if \<not> storeAccepts env (AddLabel ident LabelQueued)
                               then (Some (StoreUnavailable ''add label''), s)
                             else
                               (let s2 = addLabel ident LabelQueued s1
                                in (None, if NoConvoy opts then s2
                                          else ensureTracked env ident s2))))))"

subsection \<open>Dispatch engine\<close>

text \<open>
  Modelled from the spec: the capacity computation of \<^verbatim>\<open>dispatchQueuedWork\<close> is not
  under \<^verbatim>\<open>src/\<close>. Step 4, the admission count: the free capacity \<open>max 0 (maxWorkers - activeWorkers)\<close>,
  or no capacity bound at all when \<open>maxWorkers\<close> is 0, then the batch size, then the
  number of ready candidates.
\<close>

definition capacityOf :: "int \<Rightarrow> int \<Rightarrow> int option" where
  "capacityOf maxWorkers activeWorkers =
     (if maxWorkers = 0 then None else Some (max 0 (maxWorkers - activeWorkers)))"

definition admissionCount :: "int \<Rightarrow> int \<Rightarrow> int \<Rightarrow> int \<Rightarrow> int" where
  "admissionCount maxWorkers activeWorkers batchSize readyCount =
     (case capacityOf maxWorkers activeWorkers of
        None \<Rightarrow> min batchSize readyCount
      | Some capacity \<Rightarrow> min capacity (min batchSize readyCount))"

text \<open>Step 6: the execution parameters reconstructed from the metadata.\<close>

definition paramsOfMetadata :: "string \<Rightarrow> QueueMetadata \<Rightarrow> execParams" where
  "paramsOfMetadata ident meta =
     \<lparr>ep_BeadID = ident, ep_TargetRig = TargetRig meta, ep_Formula = meta_Formula meta,
      ep_HookRawBead = meta_HookRawBead meta, ep_Args = meta_Args meta,
      ep_Vars = meta_Vars meta, ep_Merge = meta_Merge meta,
      ep_BaseBranch = meta_BaseBranch meta, ep_Account = meta_Account meta,
      ep_Agent = meta_Agent meta, ep_Mode = Mode meta, ep_NoConvoy = True, ep_NoBoot = True,
      ep_CallerContext = ''queue-dispatch''\<rparr>"

definition quarantine :: "string \<Rightarrow> store \<Rightarrow> store" where
  "quarantine ident s = addLabel ident LabelDispatchFailed (removeLabel ident LabelQueued s)"

text \<open>
  Modelled from the spec: the per-item dispatch is not under \<^verbatim>\<open>src/\<close>. These are
  steps 6 to 8 for one candidate; the result says whether the item was dispatched. On a
  failure the counter and the message are written back, and at the threshold the label is
  swapped.
\<close>

definition dispatchSingleBead :: "coreEnv \<Rightarrow> string \<Rightarrow> store \<Rightarrow> bool \<times> store" where
  "dispatchSingleBead env ident s =
     (case s ident of
        None \<Rightarrow> (False, s)
      | Some b \<Rightarrow>
          (case ParseQueueMetadata (bead_Description b) of
             None \<Rightarrow> (False, quarantine ident s)
           | Some meta \<Rightarrow>
               if TargetRig meta = [] then (False, quarantine ident s)
               else
                 (case execute env (paramsOfMetadata ident meta) s of
                    (None, s1) \<Rightarrow>
                      (True,
                       addLabel ident LabelQueueDispatched
                         (removeLabel ident LabelQueued
                            (setDescription ident (StripQueueMetadata (bead_Description b)) s1)))
                  | (Some msg, s1) \<Rightarrow>
                      (let meta' = meta\<lparr>DispatchFailures := DispatchFailures meta + 1,
                                        LastFailure := msg\<rparr>;
                           s2 = setDescription ident (withMetadata (bead_Description b) meta') s1
                       in if DispatchFailures meta' \<ge> maxDispatchFailures
                          then (False, addLabel ident LabelDispatchFailed
                                         (removeLabel ident LabelQueued s2))
                          else (False, s2)))))"

fun dispatchLoop :: "coreEnv \<Rightarrow> string list \<Rightarrow> nat \<times> store \<Rightarrow> nat \<times> store" where
  "dispatchLoop env [] acc = acc"
| "dispatchLoop env (ident # rest) (dispatched, s) =
     (case dispatchSingleBead env ident s of
        (True, s') \<Rightarrow> dispatchLoop env rest (Suc dispatched, s')
      | (False, s') \<Rightarrow> dispatchLoop env rest (dispatched, s'))"

text \<open>The state store: a missing file loads as the default, unpaused state.\<close>

definition defaultQueueState :: QueueState where
  "defaultQueueState =
     \<lparr>Paused = False, PausedBy = [], PausedAt = [], LastDispatchAt = [],
      LastDispatchCount = 0\<rparr>"

definition loadState :: "world \<Rightarrow> QueueState" where
  "loadState w = (case stateFile w of None \<Rightarrow> defaultQueueState | Some st \<Rightarrow> st)"

definition saveState :: "QueueState \<Rightarrow> world \<Rightarrow> world" where
  "saveState st w = w\<lparr>stateFile := Some st\<rparr>"

text \<open>
  Modelled from the spec: \<^verbatim>\<open>dispatchQueuedWork\<close> is not under \<^verbatim>\<open>src/\<close>. These are
  steps 2 to 11 of a dispatch cycle; the inter-spawn delay and the wake-up of the
  partitions (steps 9 and 10) leave the store and the state file as they are and are not
  represented. The result is an error, or the number of dispatched
  items with the candidates selected for admission.
\<close>

definition dispatchCycle ::
  "coreEnv \<Rightarrow> int \<Rightarrow> int \<Rightarrow> bool \<Rightarrow> world \<Rightarrow> (error option \<times> nat \<times> string list) \<times> world" where
  "dispatchCycle env batchOverride maxOverride dryRun w =
     (let maxWorkers = (if maxOverride = 0 then configMaxWorkers env else maxOverride);
          batchSize = (if batchOverride = 0 then configBatchSize env else batchOverride);
          activeWorkers = countActiveWorkers env (beads w)
      in case readyCandidates env (beads w) of
           Inl err \<Rightarrow> ((Some err, 0, []), w)
         | Inr ready \<Rightarrow>
             (let n = admissionCount maxWorkers activeWorkers batchSize (int (length ready));
                  candidates = take (nat n) ready
              in if dryRun then ((None, 0, candidates), w)
                 else
                   (case dispatchLoop env candidates (0, beads w) of
                      (dispatched, s') \<Rightarrow>
                        (let w' = w\<lparr>beads := s'\<rparr>;
                             fresh = loadState w'
                         in ((None, dispatched, candidates),
                             saveState (fresh\<lparr>LastDispatchAt := clockNow env,
                                               LastDispatchCount := int dispatched\<rparr>) w')))))"

text \<open>
  Modelled from the spec: \<^verbatim>\<open>dispatchQueuedWork\<close> is not under \<^verbatim>\<open>src/\<close>; whether the
  invocation is manual is a parameter (the source's caller passes no such argument, so
  the engine reads it from its environment). Step 1, the pause gate: a paused state stops
  an automatic invocation before anything
  else is read or written; a manual invocation goes on.
\<close>

definition dispatchQueuedWork ::
  "coreEnv \<Rightarrow> bool \<Rightarrow> int \<Rightarrow> int \<Rightarrow> bool \<Rightarrow> world \<Rightarrow>
   (error option \<times> nat \<times> string list) \<times> world" where
  "dispatchQueuedWork env manual batchOverride maxOverride dryRun w =
     (let state = loadState w
      in if Paused state \<and> \<not> manual then ((None, 0, []), w)
         else dispatchCycle env batchOverride maxOverride dryRun w)"

subsection \<open>Admission count, pause gate and idempotent enqueue\<close>

text \<open>
  Claim C6. The admission count is the least of the free capacity
  \<open>max 0 (maxWorkers - activeWorkers)\<close>, the batch size and the ready count; with
  \<open>maxWorkers = 0\<close> the capacity term is dropped and the count does not depend on the
  active workers; and 5, 3, 4, 10 admit exactly 2.
\<close>

theorem admissionCount_formula:
  "(maxWorkers \<noteq> 0 \<longrightarrow>
      admissionCount maxWorkers activeWorkers batchSize readyCount
        = min (max 0 (maxWorkers - activeWorkers)) (min batchSize readyCount))
   \<and> admissionCount 0 activeWorkers batchSize readyCount = min batchSize readyCount
   \<and> admissionCount 0 activeWorkers batchSize readyCount
        = admissionCount 0 otherActive batchSize readyCount
   \<and> admissionCount 5 3 4 10 = 2"
  by (simp add: admissionCount_def capacityOf_def)

theorem admissionCount_formula_witness:
  "admissionCount 5 3 4 10 = min (max 0 (5 - 3)) (min 4 10)
   \<and> admissionCount 0 7 4 10 = 4
   \<and> admissionCount 0 7 4 10 = admissionCount 0 0 4 10
   \<and> admissionCount 5 9 4 10 = 0"
  using admissionCount_formula [of 5 3 4 10 0] admissionCount_formula [of 5 9 4 10 0]
    admissionCount_formula [of 0 7 4 10 0]
  by simp

lemma dispatchCycle_dry_run_candidates:
  assumes "readyCandidates env (beads w) = Inr ready"
  shows "dispatchCycle env batchOverride maxOverride True w =
           ((None, 0,
             take (nat (admissionCount
                          (if maxOverride = 0 then configMaxWorkers env else maxOverride)
                          (countActiveWorkers env (beads w))
                          (if batchOverride = 0 then configBatchSize env else batchOverride)
                          (int (length ready)))) ready), w)"
  using assms by (simp add: dispatchCycle_def Let_def)

lemma dispatchCycle_ignores_paused:
  "fst (dispatchCycle env bo mo dry (w\<lparr>stateFile := Some (st\<lparr>Paused := p\<rparr>)\<rparr>))
     = fst (dispatchCycle env bo mo dry (w\<lparr>stateFile := Some (st\<lparr>Paused := q\<rparr>)\<rparr>))
   \<and> beads (snd (dispatchCycle env bo mo dry (w\<lparr>stateFile := Some (st\<lparr>Paused := p\<rparr>)\<rparr>)))
     = beads (snd (dispatchCycle env bo mo dry (w\<lparr>stateFile := Some (st\<lparr>Paused := q\<rparr>)\<rparr>)))"
  by (simp add: dispatchCycle_def Let_def saveState_def split: sum.splits prod.splits)

lemma dispatchCycle_keeps_paused:
  "Paused (loadState (snd (dispatchCycle env bo mo dry w))) = Paused (loadState w)"
  by (simp add: dispatchCycle_def Let_def saveState_def loadState_def
      split: sum.splits prod.splits option.splits)

text \<open>
  Claim C7. With a paused state, an automatic invocation dispatches nothing and returns
  the world it was given (the state file with it). A manual invocation runs the dispatch
  cycle whatever the paused flag is: its result and the store it leaves are the same for
  the paused and the unpaused state, and the state it leaves is paused exactly when the
  state it found was.
\<close>

theorem pause_gate:
  "(Paused (loadState w) \<longrightarrow>
      dispatchQueuedWork env False batchOverride maxOverride dryRun w = ((None, 0, []), w))
   \<and> dispatchQueuedWork env True batchOverride maxOverride dryRun w
        = dispatchCycle env batchOverride maxOverride dryRun w
   \<and> Paused (loadState (snd (dispatchQueuedWork env True batchOverride maxOverride dryRun w)))
        = Paused (loadState w)
   \<and> fst (dispatchQueuedWork env True batchOverride maxOverride dryRun
             (w\<lparr>stateFile := Some (st\<lparr>Paused := True\<rparr>)\<rparr>))
        = fst (dispatchQueuedWork env True batchOverride maxOverride dryRun
                 (w\<lparr>stateFile := Some (st\<lparr>Paused := False\<rparr>)\<rparr>))
   \<and> beads (snd (dispatchQueuedWork env True batchOverride maxOverride dryRun
                    (w\<lparr>stateFile := Some (st\<lparr>Paused := True\<rparr>)\<rparr>)))
        = beads (snd (dispatchQueuedWork env True batchOverride maxOverride dryRun
                        (w\<lparr>stateFile := Some (st\<lparr>Paused := False\<rparr>)\<rparr>)))"
proof -
  have manual: "\<And>w. dispatchQueuedWork env True batchOverride maxOverride dryRun w
      = dispatchCycle env batchOverride maxOverride dryRun w"
    by (simp add: dispatchQueuedWork_def)
  have auto: "Paused (loadState w) \<longrightarrow>
      dispatchQueuedWork env False batchOverride maxOverride dryRun w = ((None, 0, []), w)"
    by (simp add: dispatchQueuedWork_def)
  show ?thesis
    unfolding manual
    using auto
      dispatchCycle_keeps_paused [where env = env and bo = batchOverride and mo = maxOverride
        and dry = dryRun and w = w]
      dispatchCycle_ignores_paused [where env = env and bo = batchOverride
        and mo = maxOverride and dry = dryRun and w = w and st = st and p = True and q = False]
    by (simp add: dispatchQueuedWork_def)
qed

lemma enqueue_noop:
  assumes "s ident = Some b"
    and "bead_Status b = ''open''"
    and "LabelQueued \<in> set (bead_Labels b)"
    and "rigOfPrefix env ident = rig"
    and "\<not> Force opts"
  shows "specEnqueueBead env ident rig opts s = (None, s)"
  using assms by (simp add: specEnqueueBead_def)

text \<open>
  The number of positions at which a text occurs in another; for the delimiter, the
  number of metadata blocks in a description.
\<close>

fun occurrences :: "string \<Rightarrow> string \<Rightarrow> nat" where
  "occurrences sub [] = (if sub = [] then 1 else 0)"
| "occurrences sub (c # cs) = (if prefix sub (c # cs) then 1 else 0) + occurrences sub cs"

text \<open>No value of the record holds the delimiter.\<close>

definition delimiterFree :: "QueueMetadata \<Rightarrow> bool" where
  "delimiterFree m \<longleftrightarrow>
     list_all (\<lambda>kv. strIndex (snd kv) QueueMetadataDelimiter = None) (metadataFields m)"

lemma occurrences_zero_iff: "sub \<noteq> [] \<Longrightarrow> occurrences sub s = 0 \<longleftrightarrow> \<not> sublist sub s"
  by (induction s) (simp_all add: sublist_Cons_right)

lemma prefix_through_separator:
  assumes "c \<notin> set sub"
  shows "prefix sub (p @ c # s) \<longleftrightarrow> prefix sub p"
proof
  assume "prefix sub (p @ c # s)"
  then consider "prefix sub p" | us where "sub = p @ us" "prefix us (c # s)"
    unfolding prefix_append by blast
  then show "prefix sub p"
  proof cases
    case 1 then show ?thesis .
  next
    case 2
    have "us = []" using 2 assms by (cases us) auto
    with 2 show ?thesis by simp
  qed
next
  assume "prefix sub p"
  then show "prefix sub (p @ c # s)" by (rule prefix_prefix)
qed

lemma occurrences_separator:
  assumes "c \<notin> set sub" and "sub \<noteq> []"
  shows "occurrences sub (p @ c # s) = occurrences sub p + occurrences sub s"
proof (induction p)
  case Nil
  have "\<not> prefix sub (c # s)" using assms by (cases sub) auto
  with assms(2) show ?case by simp
next
  case (Cons a p)
  have "prefix sub (a # p @ c # s) \<longleftrightarrow> prefix sub (a # p)"
    using prefix_through_separator [OF assms(1), of "a # p" s] by simp
  with Cons show ?case by simp
qed

lemma occurrences_delimiter_self:
  "occurrences QueueMetadataDelimiter QueueMetadataDelimiter = 1"
  by (simp add: QueueMetadataDelimiter_def)

lemma FormatQueueMetadata_one_block:
  assumes "delimiterFree m"
  shows "occurrences QueueMetadataDelimiter (FormatQueueMetadata m) = 1"
proof -
  let ?ls = "map renderField (metadataFields m)"
  have "\<not> sublist QueueMetadataDelimiter l" if l: "l \<in> set ?ls" for l
  proof -
    from l obtain k v where kv: "(k, v) \<in> set (metadataFields m)" "l = renderField (k, v)"
      by auto
    from kv(1) keys_known [of m] have "k \<in> set knownKeys" by force
    from knownKeys_plain [OF this]
    have "hd QueueMetadataDelimiter \<notin> set (k @ '': '')" by (simp add: delimiter_facts)
    from sublist_skip_prefix [OF delimiter_facts(1) this, of v]
    have "sublist QueueMetadataDelimiter (renderField (k, v)) \<Longrightarrow> sublist QueueMetadataDelimiter v"
      by (simp add: renderField_def)
    moreover from assms kv(1) have "\<not> sublist QueueMetadataDelimiter v"
      by (auto simp: delimiterFree_def list_all_iff strIndex_None_iff)
    ultimately show ?thesis using kv(2) by blast
  qed
  then have "\<not> sublist QueueMetadataDelimiter (joinLines ?ls)"
    using sublist_joinLines [OF delimiter_facts(3) delimiter_facts(1), of ?ls] by blast
  then have "occurrences QueueMetadataDelimiter (joinLines ?ls) = 0"
    by (simp add: occurrences_zero_iff delimiter_facts)
  then show ?thesis
    unfolding FormatQueueMetadata_shape
    by (simp add: occurrences_separator [OF delimiter_facts(3) delimiter_facts(1)]
        occurrences_delimiter_self)
qed

lemma StripQueueMetadata_no_block:
  "occurrences QueueMetadataDelimiter (StripQueueMetadata d) = 0"
proof -
  have "strIndex (StripQueueMetadata d) QueueMetadataDelimiter = None"
  proof (cases "strIndex d QueueMetadataDelimiter")
    case None then show ?thesis by (simp add: StripQueueMetadata_def)
  next
    case (Some i)
    from strIndex_Some_take [OF this delimiter_facts(1)] Some
    show ?thesis by (simp add: StripQueueMetadata_def)
  qed
  then show ?thesis by (simp add: occurrences_zero_iff delimiter_facts strIndex_None_iff)
qed

lemma withMetadata_one_block:
  assumes "delimiterFree m"
  shows "occurrences QueueMetadataDelimiter (withMetadata d m) = 1"
proof (cases "StripQueueMetadata d = []")
  case True
  with FormatQueueMetadata_one_block [OF assms] show ?thesis
    by (simp add: withMetadata_def)
next
  case False
  have "occurrences QueueMetadataDelimiter (StripQueueMetadata d @ newline # FormatQueueMetadata m)
      = 0 + 1"
    unfolding occurrences_separator [OF delimiter_facts(3) delimiter_facts(1)]
      StripQueueMetadata_no_block FormatQueueMetadata_one_block [OF assms] ..
  with False show ?thesis by (simp add: withMetadata_def)
qed

lemma first_enqueue_writes:
  assumes first: "specEnqueueBead env ident rig opts sOld = (None, sNew)"
    and item: "sOld ident = Some bOld"
    and fresh: "LabelQueued \<notin> set (bead_Labels bOld)"
    and nf: "\<not> Force opts" and nd: "\<not> DryRun opts"
    and tracker: "\<And>t. ensureTracked env ident t ident = t ident"
  shows "rigOfPrefix env ident = rig
       \<and> sNew ident =
           Some (bOld\<lparr>bead_Description :=
                         withMetadata (bead_Description bOld) (metadataOfOptions env rig opts),
                       bead_Labels := bead_Labels bOld @ [LabelQueued]\<rparr>)"
proof -
  have guard: "rigOfPrefix env ident = rig"
    using first item nf by (auto simp: specEnqueueBead_def split: if_splits)
  define d where "d = withMetadata (bead_Description bOld) (metadataOfOptions env rig opts)"
  define s2 where "s2 = addLabel ident LabelQueued (setDescription ident d sOld)"
  have sNew: "sNew = (if NoConvoy opts then s2 else ensureTracked env ident s2)"
    using first item nf nd guard fresh
    by (auto simp: specEnqueueBead_def Let_def d_def s2_def split: if_splits option.splits)
  have "sNew ident = s2 ident" using sNew tracker by simp
  moreover have "s2 ident =
      Some (bOld\<lparr>bead_Description := d, bead_Labels := bead_Labels bOld @ [LabelQueued]\<rparr>)"
    using item fresh by (simp add: s2_def addLabel_def setDescription_def)
  ultimately show ?thesis using guard by (simp add: d_def)
qed

text \<open>
  Claim C8, as amended. For an item that is open and carries the queued label, an enqueue
  without force whose target partition passes the cross-partition guard returns success
  and the store it was given: the item keeps its labels and its description. And when a
  first enqueue (no force, no dry run) of an open item that did not carry the queued
  label has succeeded, with no value of the metadata holding the delimiter and the
  tracking collaborator leaving the item itself alone, the second enqueue with the same
  arguments is that no-op, and the item it leaves is open, carries the queued label once
  and has exactly one metadata block in its description: the stripped old description
  followed by the new block.
\<close>

theorem enqueue_idempotent:
  "(s ident = Some b \<and> bead_Status b = ''open'' \<and> LabelQueued \<in> set (bead_Labels b)
      \<and> rigOfPrefix env ident = rig \<and> \<not> Force opts
    \<longrightarrow> specEnqueueBead env ident rig opts s = (None, s))
   \<and> (specEnqueueBead env ident rig opts sOld = (None, sNew) \<and> sOld ident = Some bOld
      \<and> bead_Status bOld = ''open'' \<and> LabelQueued \<notin> set (bead_Labels bOld)
      \<and> \<not> Force opts \<and> \<not> DryRun opts
      \<and> (\<forall>t. ensureTracked env ident t ident = t ident)
      \<and> delimiterFree (metadataOfOptions env rig opts)
    \<longrightarrow> specEnqueueBead env ident rig opts sNew = (None, sNew)
        \<and> (\<exists>b1. sNew ident = Some b1 \<and> bead_Status b1 = ''open''
              \<and> count_list (bead_Labels b1) LabelQueued = 1
              \<and> occurrences QueueMetadataDelimiter (bead_Description b1) = 1
              \<and> bead_Description b1 =
                  withMetadata (bead_Description bOld) (metadataOfOptions env rig opts)))"
proof (intro conjI impI)
  assume "s ident = Some b \<and> bead_Status b = ''open'' \<and> LabelQueued \<in> set (bead_Labels b)
      \<and> rigOfPrefix env ident = rig \<and> \<not> Force opts"
  then show "specEnqueueBead env ident rig opts s = (None, s)"
    by (simp add: enqueue_noop)
next
  assume a: "specEnqueueBead env ident rig opts sOld = (None, sNew) \<and> sOld ident = Some bOld
      \<and> bead_Status bOld = ''open'' \<and> LabelQueued \<notin> set (bead_Labels bOld)
      \<and> \<not> Force opts \<and> \<not> DryRun opts
      \<and> (\<forall>t. ensureTracked env ident t ident = t ident)
      \<and> delimiterFree (metadataOfOptions env rig opts)"
  define b1 where
    "b1 = bOld\<lparr>bead_Description :=
                   withMetadata (bead_Description bOld) (metadataOfOptions env rig opts),
                 bead_Labels := bead_Labels bOld @ [LabelQueued]\<rparr>"
  have "rigOfPrefix env ident = rig \<and> sNew ident = Some b1"
    unfolding b1_def
  proof (rule first_enqueue_writes [where sOld = sOld and sNew = sNew and bOld = bOld
        and env = env and ident = ident and rig = rig and opts = opts])
    show "specEnqueueBead env ident rig opts sOld = (None, sNew)" using a by simp
    show "sOld ident = Some bOld" using a by simp
    show "LabelQueued \<notin> set (bead_Labels bOld)" using a by simp
    show "\<not> Force opts" using a by simp
    show "\<not> DryRun opts" using a by simp
    show "\<And>t. ensureTracked env ident t ident = t ident" using a by simp
  qed
  then have guard: "rigOfPrefix env ident = rig" and item: "sNew ident = Some b1"
    by simp_all
  from a have op: "bead_Status b1 = ''open''" by (simp add: b1_def)
  have lab: "LabelQueued \<in> set (bead_Labels b1)" by (simp add: b1_def)
  from a have once: "count_list (bead_Labels b1) LabelQueued = 1"
    by (simp add: b1_def count_list_0_iff)
  from a have "delimiterFree (metadataOfOptions env rig opts)" by simp
  from withMetadata_one_block [OF this, of "bead_Description bOld"]
  have block: "occurrences QueueMetadataDelimiter (bead_Description b1) = 1"
    by (simp add: b1_def)
  from a have "\<not> Force opts" by simp
  with item op lab guard
  show "specEnqueueBead env ident rig opts sNew = (None, sNew)"
    by (rule enqueue_noop [where s = sNew and ident = ident and b = b1 and env = env
          and rig = rig and opts = opts])
  from item op once block
  show "\<exists>b1. sNew ident = Some b1 \<and> bead_Status b1 = ''open''
              \<and> count_list (bead_Labels b1) LabelQueued = 1
              \<and> occurrences QueueMetadataDelimiter (bead_Description b1) = 1
              \<and> bead_Description b1 =
                  withMetadata (bead_Description bOld) (metadataOfOptions env rig opts)"
    by (simp add: b1_def)
qed

text \<open>
  A concrete core: every identifier with the prefix \<^verbatim>\<open>gt-\<close> belongs to the partition
  \<^verbatim>\<open>gastown\<close>, formulas exist and compile, the store accepts every write, the executor
  succeeds, three workers are active, and the configuration allows five workers and a
  batch of four.
\<close>

definition demoCoreEnv :: coreEnv where
  "demoCoreEnv =
     \<lparr>rigOfPrefix = (\<lambda>i. if prefix ''gt-'' i then ''gastown'' else []),
      formulaExists = (\<lambda>f. True),
      cookFormula = (\<lambda>f i. None),
      clockNow = ''2026-02-19T10:00:00Z'',
      storeAccepts = (\<lambda>op. True),
      ensureTracked = (\<lambda>i s. s),
      execute = (\<lambda>p s. (None, s)),
      countActiveWorkers = (\<lambda>s. 3),
      configMaxWorkers = 5,
      configBatchSize = 4,
      readyCandidates = (\<lambda>s. Inr [''gt-1'', ''gt-2'', ''gt-3''])\<rparr>"

definition demoQueuedBead :: bead where
  "demoQueuedBead =
     \<lparr>bead_Title = ''Task'', bead_Status = ''open'', bead_Assignee = [],
      bead_Labels = [LabelQueued],
      bead_Description = withMetadata ''Do it'' sampleMetadata\<rparr>"

definition demoPausedWorld :: world where
  "demoPausedWorld =
     \<lparr>stateFile = Some demoPausedState,
      beads = map_of [(''gt-1'', demoQueuedBead), (''gt-2'', demoQueuedBead),
                      (''gt-3'', demoQueuedBead)]\<rparr>"

lemma demo_manual_run:
  "fst (dispatchQueuedWork demoCoreEnv True 0 0 False demoPausedWorld)
     = (None, 2, [''gt-1'', ''gt-2''])
   \<and> stateFile (snd (dispatchQueuedWork demoCoreEnv True 0 0 False demoPausedWorld))
     = Some (demoPausedState\<lparr>LastDispatchAt := ''2026-02-19T10:00:00Z'',
                              LastDispatchCount := 2\<rparr>)
   \<and> map_option bead_Labels
        (beads (snd (dispatchQueuedWork demoCoreEnv True 0 0 False demoPausedWorld)) ''gt-1'')
     = Some [LabelQueueDispatched]
   \<and> map_option bead_Description
        (beads (snd (dispatchQueuedWork demoCoreEnv True 0 0 False demoPausedWorld)) ''gt-1'')
     = Some (''Do it'' @ [newline])
   \<and> map_option bead_Labels
        (beads (snd (dispatchQueuedWork demoCoreEnv True 0 0 False demoPausedWorld)) ''gt-3'')
     = Some [LabelQueued]"
  by code_simp

theorem pause_gate_witness:
  "dispatchQueuedWork demoCoreEnv False 0 0 False demoPausedWorld = ((None, 0, []), demoPausedWorld)
   \<and> fst (dispatchQueuedWork demoCoreEnv True 0 0 False demoPausedWorld)
       = (None, 2, [''gt-1'', ''gt-2''])
   \<and> Paused (loadState (snd (dispatchQueuedWork demoCoreEnv True 0 0 False demoPausedWorld)))"
proof -
  have p: "Paused (loadState demoPausedWorld)"
    by (simp add: loadState_def demoPausedWorld_def demoPausedState_def)
  note gate = pause_gate [where env = demoCoreEnv and w = demoPausedWorld and batchOverride = 0
      and maxOverride = 0 and dryRun = False and st = demoPausedState]
  from gate p
  have automatic: "dispatchQueuedWork demoCoreEnv False 0 0 False demoPausedWorld
      = ((None, 0, []), demoPausedWorld)"
    by blast
  from gate p
  have still: "Paused (loadState (snd (dispatchQueuedWork demoCoreEnv True 0 0 False
      demoPausedWorld)))"
    by blast
  from automatic still demo_manual_run show ?thesis by blast
qed

definition demoOpenStore :: store where
  "demoOpenStore =
     map_of [(''gt-1'', \<lparr>bead_Title = ''Task'', bead_Status = ''open'', bead_Assignee = [],
                          bead_Labels = [], bead_Description = ''Do it''\<rparr>)]"

definition demoEnqueueOptions :: EnqueueOptions where
  "demoEnqueueOptions = zeroEnqueueOptions\<lparr>Formula := ''mol-polecat-work'', Args := ''fix: the bug'',
     Vars := [''a=1'', ''a=1'']\<rparr>"

definition demoEnqueuedBead :: bead where
  "demoEnqueuedBead =
     \<lparr>bead_Title = ''Task'', bead_Status = ''open'', bead_Assignee = [],
      bead_Labels = [LabelQueued],
      bead_Description =
        withMetadata ''Do it'' (metadataOfOptions demoCoreEnv ''gastown'' demoEnqueueOptions)\<rparr>"

lemma demo_first_enqueue:
  "specEnqueueBead demoCoreEnv ''gt-1'' ''gastown'' demoEnqueueOptions demoOpenStore
     = (None, demoOpenStore(''gt-1'' \<mapsto> demoEnqueuedBead))"
  by (simp add: specEnqueueBead_def demoCoreEnv_def demoOpenStore_def demoEnqueueOptions_def
      zeroEnqueueOptions_def LabelQueued_def setDescription_def addLabel_def Let_def
      demoEnqueuedBead_def)

lemma demo_delimiter_free:
  "delimiterFree (metadataOfOptions demoCoreEnv ''gastown'' demoEnqueueOptions)"
  by code_simp

lemma demo_one_block:
  "occurrences QueueMetadataDelimiter (bead_Description demoEnqueuedBead) = 1
   \<and> count_list (bead_Labels demoEnqueuedBead) LabelQueued = 1"
  by code_simp

theorem enqueue_idempotent_witness:
  "specEnqueueBead demoCoreEnv ''gt-1'' ''gastown'' demoEnqueueOptions demoOpenStore
     = (None, demoOpenStore(''gt-1'' \<mapsto> demoEnqueuedBead))
   \<and> specEnqueueBead demoCoreEnv ''gt-1'' ''gastown'' demoEnqueueOptions
       (demoOpenStore(''gt-1'' \<mapsto> demoEnqueuedBead))
     = (None, demoOpenStore(''gt-1'' \<mapsto> demoEnqueuedBead))
   \<and> occurrences QueueMetadataDelimiter (bead_Description demoEnqueuedBead) = 1
   \<and> count_list (bead_Labels demoEnqueuedBead) LabelQueued = 1"
proof -
  have tracker: "\<forall>t. ensureTracked demoCoreEnv ''gt-1'' t ''gt-1'' = t ''gt-1''"
    by (simp add: demoCoreEnv_def)
  have item: "demoOpenStore ''gt-1''
      = Some \<lparr>bead_Title = ''Task'', bead_Status = ''open'', bead_Assignee = [],
               bead_Labels = [], bead_Description = ''Do it''\<rparr>"
    by (simp add: demoOpenStore_def)
  have opts: "\<not> Force demoEnqueueOptions" "\<not> DryRun demoEnqueueOptions"
    by (simp_all add: demoEnqueueOptions_def zeroEnqueueOptions_def)
  have "specEnqueueBead demoCoreEnv ''gt-1'' ''gastown'' demoEnqueueOptions
       (demoOpenStore(''gt-1'' \<mapsto> demoEnqueuedBead))
     = (None, demoOpenStore(''gt-1'' \<mapsto> demoEnqueuedBead))
     \<and> occurrences QueueMetadataDelimiter (bead_Description demoEnqueuedBead) = 1
     \<and> count_list (bead_Labels demoEnqueuedBead) LabelQueued = 1"
    using enqueue_idempotent [where env = demoCoreEnv and ident = "''gt-1''"
        and rig = "''gastown''" and opts = demoEnqueueOptions
        and s = "demoOpenStore(''gt-1'' \<mapsto> demoEnqueuedBead)" and b = demoEnqueuedBead
        and sOld = demoOpenStore
        and sNew = "demoOpenStore(''gt-1'' \<mapsto> demoEnqueuedBead)"
        and bOld = "\<lparr>bead_Title = ''Task'', bead_Status = ''open'', bead_Assignee = [],
                     bead_Labels = [], bead_Description = ''Do it''\<rparr>"]
      demo_first_enqueue tracker item opts demo_delimiter_free
    by auto
  with demo_first_enqueue show ?thesis by simp
qed

text \<open>
  The claim as it is stated, for every open item that carries the queued label, fails in
  two ways. An open item that carries the label but no block (the label was set outside
  the pipeline) is left as it is by the no-op: one label, no metadata block. And an
  instruction text that holds the delimiter is written unescaped: after the first
  enqueue the second is the no-op, the label is there once, and the delimiter occurs
  twice in the description.
\<close>

definition demoLabelledStore :: store where
  "demoLabelledStore =
     map_of [(''gt-1'', \<lparr>bead_Title = ''Task'', bead_Status = ''open'', bead_Assignee = [],
                          bead_Labels = [LabelQueued], bead_Description = ''Do it''\<rparr>)]"

definition demoDelimiterOptions :: EnqueueOptions where
  "demoDelimiterOptions = zeroEnqueueOptions\<lparr>Formula := ''mol-polecat-work'',
     Args := QueueMetadataDelimiter\<rparr>"

definition demoDelimiterBead :: bead where
  "demoDelimiterBead =
     \<lparr>bead_Title = ''Task'', bead_Status = ''open'', bead_Assignee = [],
      bead_Labels = [LabelQueued],
      bead_Description =
        withMetadata ''Do it'' (metadataOfOptions demoCoreEnv ''gastown'' demoDelimiterOptions)\<rparr>"

lemma demo_labelled_noop:
  "specEnqueueBead demoCoreEnv ''gt-1'' ''gastown'' demoEnqueueOptions demoLabelledStore
     = (None, demoLabelledStore)"
  by (simp add: specEnqueueBead_def demoCoreEnv_def demoLabelledStore_def demoEnqueueOptions_def
      zeroEnqueueOptions_def)

lemma demo_labelled_item:
  "map_option bead_Status (demoLabelledStore ''gt-1'') = Some ''open''
   \<and> map_option bead_Labels (demoLabelledStore ''gt-1'') = Some [LabelQueued]
   \<and> map_option (occurrences QueueMetadataDelimiter \<circ> bead_Description)
        (demoLabelledStore ''gt-1'') = Some 0
   \<and> map_option (ParseQueueMetadata \<circ> bead_Description) (demoLabelledStore ''gt-1'')
        = Some None"
  by code_simp

lemma demo_delimiter_first:
  "specEnqueueBead demoCoreEnv ''gt-1'' ''gastown'' demoDelimiterOptions demoOpenStore
     = (None, demoOpenStore(''gt-1'' \<mapsto> demoDelimiterBead))"
  by (simp add: specEnqueueBead_def demoCoreEnv_def demoOpenStore_def demoDelimiterOptions_def
      zeroEnqueueOptions_def LabelQueued_def setDescription_def addLabel_def Let_def
      demoDelimiterBead_def)

lemma demo_delimiter_second:
  "specEnqueueBead demoCoreEnv ''gt-1'' ''gastown'' demoDelimiterOptions
       (demoOpenStore(''gt-1'' \<mapsto> demoDelimiterBead))
     = (None, demoOpenStore(''gt-1'' \<mapsto> demoDelimiterBead))"
  by (simp add: specEnqueueBead_def demoCoreEnv_def demoDelimiterOptions_def
      zeroEnqueueOptions_def demoDelimiterBead_def)

lemma demo_two_delimiters:
  "occurrences QueueMetadataDelimiter (bead_Description demoDelimiterBead) = 2
   \<and> count_list (bead_Labels demoDelimiterBead) LabelQueued = 1"
  by code_simp

theorem enqueue_idempotent_counterexample:
  "specEnqueueBead demoCoreEnv ''gt-1'' ''gastown'' demoEnqueueOptions demoLabelledStore
     = (None, demoLabelledStore)
   \<and> map_option bead_Status (demoLabelledStore ''gt-1'') = Some ''open''
   \<and> map_option bead_Labels (demoLabelledStore ''gt-1'') = Some [LabelQueued]
   \<and> map_option (occurrences QueueMetadataDelimiter \<circ> bead_Description)
        (demoLabelledStore ''gt-1'') = Some 0
   \<and> specEnqueueBead demoCoreEnv ''gt-1'' ''gastown'' demoDelimiterOptions demoOpenStore
     = (None, demoOpenStore(''gt-1'' \<mapsto> demoDelimiterBead))
   \<and> specEnqueueBead demoCoreEnv ''gt-1'' ''gastown'' demoDelimiterOptions
       (demoOpenStore(''gt-1'' \<mapsto> demoDelimiterBead))
     = (None, demoOpenStore(''gt-1'' \<mapsto> demoDelimiterBead))
   \<and> bead_Status demoDelimiterBead = ''open''
   \<and> count_list (bead_Labels demoDelimiterBead) LabelQueued = 1
   \<and> occurrences QueueMetadataDelimiter (bead_Description demoDelimiterBead) = 2"
  using demo_labelled_noop demo_labelled_item demo_delimiter_first demo_delimiter_second
    demo_two_delimiters
  by (simp add: demoDelimiterBead_def)

end
